theory Spec2Isabelle
  imports Main "HOL-Library.Word"
begin

section \<open>JavaScript primitives used by the x402 adapter\<close>

text \<open>
  Strings are lists of 8-bit characters: the code units \<open>0x00..0xFF\<close>, which is the
  range of a header value, of the result of \<open>atob\<close> and of the argument \<open>btoa\<close>
  accepts. Code units above \<open>0xFF\<close> are outside this string type, and with them the
  one case in which \<open>btoa\<close> throws.
\<close>

subsection \<open>Numbers\<close>

text \<open>
  A JavaScript number that holds the result of \<open>parseInt\<close>: \<open>NaN\<close>, an infinity, or an
  integer-valued double (\<open>-0\<close> is identified with \<open>0\<close>).
\<close>

datatype jsnum = NaN | PosInfinity | NegInfinity | Num int

function bitlen :: "int \<Rightarrow> nat" where
  "bitlen n = (if n \<le> 0 then 0 else Suc (bitlen (n div 2)))"
  by pat_completeness auto
termination
  by (relation "measure nat") auto

declare bitlen.simps [simp del]

text \<open>
  The double nearest to a non-negative integer (ties to even, 53 significant bits);
  \<open>None\<close> when the rounded value overflows the double range.
\<close>

definition round_to_double :: "int \<Rightarrow> int option" where
  "round_to_double a =
     (if a < 2 ^ 53 then Some a
      else
        let e = bitlen a - 53;
            q = a div 2 ^ e;
            r = a mod 2 ^ e;
            half = 2 ^ (e - 1);
            q' = (if half < r \<or> (r = half \<and> odd q) then q + 1 else q);
            v = q' * 2 ^ e
        in if v < 2 ^ 1024 then Some v else None)"

definition to_number :: "bool \<Rightarrow> int \<Rightarrow> jsnum" where
  "to_number negative a =
     (case round_to_double a of
        None \<Rightarrow> (if negative then NegInfinity else PosInfinity)
      | Some v \<Rightarrow> Num (if negative then - v else v))"

subsection \<open>Characters and digits\<close>

definition isWhiteSpace :: "char \<Rightarrow> bool" where
  "isWhiteSpace c = ((of_char c :: int) \<in> {9, 10, 11, 12, 13, 32, 160})"

definition isDigit :: "char \<Rightarrow> bool" where
  "isDigit c = (48 \<le> (of_char c :: int) \<and> (of_char c :: int) \<le> 57)"

definition isHexDigit :: "char \<Rightarrow> bool" where
  "isHexDigit c =
     (isDigit c \<or> (97 \<le> (of_char c :: int) \<and> (of_char c :: int) \<le> 102)
                \<or> (65 \<le> (of_char c :: int) \<and> (of_char c :: int) \<le> 70))"

definition digitVal :: "char \<Rightarrow> int" where
  "digitVal c =
     (let n = of_char c
      in if n \<le> 57 then n - 48 else if 97 \<le> n then n - 87 else n - 55)"

definition digits_value :: "int \<Rightarrow> string \<Rightarrow> int" where
  "digits_value radix z = foldl (\<lambda>a c. a * radix + digitVal c) 0 z"

subsection \<open>\<open>String.prototype.split\<close> with a one-character separator\<close>

fun split :: "char \<Rightarrow> string \<Rightarrow> string list" where
  "split sep [] = [[]]"
| "split sep (c # cs) =
     (if c = sep then [] # split sep cs
      else (case split sep cs of
              [] \<Rightarrow> [[c]]
            | p # ps \<Rightarrow> (c # p) # ps))"

subsection \<open>\<open>parseInt(s, 10)\<close>\<close>

text \<open>
  Leading white space is skipped, one sign is read, then the longest prefix of decimal
  digits; no digit at all gives \<open>NaN\<close>. Whatever follows the digits is ignored.
\<close>

definition parseInt :: "string \<Rightarrow> jsnum" where
  "parseInt input =
     (let s = dropWhile isWhiteSpace input;
          negative = (s \<noteq> [] \<and> hd s = CHR ''-'');
          s1 = (if s \<noteq> [] \<and> (hd s = CHR ''-'' \<or> hd s = CHR ''+'') then tl s else s);
          z = takeWhile isDigit s1
      in if z = [] then NaN else to_number negative (digits_value 10 z))"


subsection \<open>\<open>Number.prototype.toString\<close> on integers, \<open>padStart\<close>\<close>

definition digitChar :: "int \<Rightarrow> char" where
  "digitChar d = ''0123456789abcdef'' ! nat d"

function toStringRadix :: "int \<Rightarrow> int \<Rightarrow> string" where
  "toStringRadix radix n =
     (if n < radix \<or> radix < 2 then [digitChar n]
      else toStringRadix radix (n div radix) @ [digitChar (n mod radix)])"
  by pat_completeness auto
termination
proof (relation "measure (\<lambda>(radix, n). nat n)")
  show "wf (measure (\<lambda>(radix, n). nat n))" by simp
next
  fix radix n :: int
  assume "\<not> (n < radix \<or> radix < 2)"
  then have "0 < n" "1 < radix" by auto
  then have "n div radix < n" by (rule int_div_less_self)
  with \<open>0 < n\<close> show "((radix, n div radix), (radix, n)) \<in> measure (\<lambda>(radix, n). nat n)"
    by simp
qed

declare toStringRadix.simps [simp del]

text \<open>
  \<open>String(n)\<close> for an integer-valued number below \<open>10^21\<close> in magnitude, where
  JavaScript prints plain decimal digits. Seconds derived from \<open>Date.now()\<close> stay far
  below that bound (a time value is at most \<open>8.64 * 10^15\<close> milliseconds).
\<close>

definition String :: "int \<Rightarrow> string" where
  "String n = (if n < 0 then CHR ''-'' # toStringRadix 10 (- n) else toStringRadix 10 n)"

definition padStart :: "nat \<Rightarrow> char \<Rightarrow> string \<Rightarrow> string" where
  "padStart targetLength fill s = replicate (targetLength - length s) fill @ s"

subsection \<open>\<open>btoa\<close> and \<open>atob\<close>\<close>

definition b64_char :: "nat \<Rightarrow> char" where
  "b64_char n =
     (if n < 26 then char_of (65 + n)
      else if n < 52 then char_of (71 + n)
      else if n < 62 then char_of (n - 4)
      else if n = 62 then CHR ''+'' else CHR ''/'')"

definition b64_index :: "char \<Rightarrow> nat option" where
  "b64_index c =
     (let n = of_char c :: nat
      in if 65 \<le> n \<and> n \<le> 90 then Some (n - 65)
         else if 97 \<le> n \<and> n \<le> 122 then Some (n - 71)
         else if 48 \<le> n \<and> n \<le> 57 then Some (n + 4)
         else if n = 43 then Some 62
         else if n = 47 then Some 63
         else None)"

text \<open>\<open>btoa\<close>: three bytes become four characters; the tail is padded with \<open>=\<close>.\<close>

fun btoa :: "string \<Rightarrow> string" where
  "btoa (a # b # c # rest) =
     (let x = of_char a :: nat; y = of_char b :: nat; z = of_char c :: nat
      in b64_char (x div 4) # b64_char ((x mod 4) * 16 + y div 16)
         # b64_char ((y mod 16) * 4 + z div 64) # b64_char (z mod 64) # btoa rest)"
| "btoa [a, b] =
     (let x = of_char a :: nat; y = of_char b :: nat
      in [b64_char (x div 4), b64_char ((x mod 4) * 16 + y div 16),
          b64_char ((y mod 16) * 4), CHR ''=''])"
| "btoa [a] =
     (let x = of_char a :: nat
      in [b64_char (x div 4), b64_char ((x mod 4) * 16), CHR ''='', CHR ''=''])"
| "btoa [] = []"

fun decode_sextets :: "nat list \<Rightarrow> string" where
  "decode_sextets (p # q # r # s # rest) =
     char_of (p * 4 + q div 16) # char_of ((q mod 16) * 16 + r div 4)
     # char_of ((r mod 4) * 64 + s) # decode_sextets rest"
| "decode_sextets [p, q, r] = [char_of (p * 4 + q div 16), char_of ((q mod 16) * 16 + r div 4)]"
| "decode_sextets [p, q] = [char_of (p * 4 + q div 16)]"
| "decode_sextets _ = []"

text \<open>
  The sextets that \<open>btoa\<close> prints and the padding that follows them, on their own:
  \<open>btoa s\<close> is the characters of \<open>sextets s\<close> followed by \<open>padding s\<close>.
\<close>

fun sextets :: "string \<Rightarrow> nat list" where
  "sextets (a # b # c # rest) =
     (let x = of_char a :: nat; y = of_char b :: nat; z = of_char c :: nat
      in x div 4 # ((x mod 4) * 16 + y div 16) # ((y mod 16) * 4 + z div 64) # (z mod 64)
         # sextets rest)"
| "sextets [a, b] =
     (let x = of_char a :: nat; y = of_char b :: nat
      in [x div 4, (x mod 4) * 16 + y div 16, (y mod 16) * 4])"
| "sextets [a] = (let x = of_char a :: nat in [x div 4, (x mod 4) * 16])"
| "sextets [] = []"

fun padding :: "string \<Rightarrow> string" where
  "padding (a # b # c # rest) = padding rest"
| "padding [a, b] = ''=''"
| "padding [a] = ''==''"
| "padding [] = []"

definition isAsciiWhitespace :: "char \<Rightarrow> bool" where
  "isAsciiWhitespace c = ((of_char c :: nat) \<in> {9, 10, 12, 13, 32})"

definition strip_padding :: "string \<Rightarrow> string" where
  "strip_padding d =
     (if length d mod 4 = 0 \<and> d \<noteq> [] \<and> last d = CHR ''=''
      then (if butlast d \<noteq> [] \<and> last (butlast d) = CHR ''=''
            then butlast (butlast d) else butlast d)
      else d)"

text \<open>
  \<open>atob\<close> (the forgiving base64 decoder): white space is dropped, up to two trailing
  \<open>=\<close> of a length that is a multiple of four are dropped, and then a length of
  \<open>1 mod 4\<close> or a character outside the alphabet makes it throw (\<open>None\<close>).
\<close>

definition atob :: "string \<Rightarrow> string option" where
  "atob data =
     (let d = strip_padding (filter (\<lambda>c. \<not> isAsciiWhitespace c) data)
      in if length d mod 4 = 1 then None
         else if \<exists>c \<in> set d. b64_index c = None then None
         else Some (decode_sextets (map (\<lambda>c. the (b64_index c)) d)))"

subsection \<open>\<open>BigInt(string)\<close>\<close>

definition trim :: "string \<Rightarrow> string" where
  "trim s = rev (dropWhile isWhiteSpace (rev (dropWhile isWhiteSpace s)))"

definition isRadixDigit :: "int \<Rightarrow> char \<Rightarrow> bool" where
  "isRadixDigit radix c = (isHexDigit c \<and> digitVal c < radix)"

text \<open>
  The string is trimmed; the empty string is \<open>0n\<close>; decimal digits may carry one sign;
  a \<open>0x\<close>, \<open>0o\<close> or \<open>0b\<close> literal may not; anything else is a \<open>SyntaxError\<close>
  (\<open>None\<close> here, turned into the thrown value by the caller).
\<close>

definition StringToBigInt :: "string \<Rightarrow> int option" where
  "StringToBigInt str =
     (let t = trim str
      in if t = [] then Some 0
         else if list_all isDigit t then Some (digits_value 10 t)
         else if hd t = CHR ''+'' \<and> tl t \<noteq> [] \<and> list_all isDigit (tl t)
           then Some (digits_value 10 (tl t))
         else if hd t = CHR ''-'' \<and> tl t \<noteq> [] \<and> list_all isDigit (tl t)
           then Some (- digits_value 10 (tl t))
         else if hd t = CHR ''0'' \<and> drop 2 t \<noteq> []
           then (let k = hd (tl t); ds = drop 2 t;
                     radix = (if k = CHR ''x'' \<or> k = CHR ''X'' then 16
                              else if k = CHR ''o'' \<or> k = CHR ''O'' then 8
                              else if k = CHR ''b'' \<or> k = CHR ''B'' then 2 else 0)
                 in if radix \<noteq> 0 \<and> list_all (isRadixDigit radix) ds
                    then Some (digits_value radix ds) else None)
         else None)"


section \<open>Wire types (\<open>types.ts\<close>)\<close>

record ResourceInfo =
  url :: string
  description :: string
  mimeType :: string

record Extra =
  assetTransferMethod :: string
  name :: string
  version :: string

text \<open>
  \<open>maxTimeoutSeconds\<close> and \<open>x402Version\<close> are numbers that the adapter only copies; they
  are kept as integers.
\<close>

record PaymentRequirement =
  scheme :: string
  network :: string
  amount :: string
  asset :: string
  payTo :: string
  maxTimeoutSeconds :: int
  extra :: Extra

record PaymentRequiredBody =
  x402Version :: int
  accepts :: "PaymentRequirement list"
  resource :: ResourceInfo
  error :: string

section \<open>Errors (\<open>errors.ts\<close>)\<close>

text \<open>
  The \<open>body\<close> of an error is \<open>unknown\<close> in the source: absent, the parsed JSON of a
  response (of the caller's type \<open>'j\<close>), the raw text of a response, or the decoded
  challenge.
\<close>

datatype 'j body = Undefined | Json 'j | Text string | Challenge PaymentRequiredBody

text \<open>
  An error object of the class \<open>DenScopeError\<close> or of one of its two subclasses; \<open>err_name\<close>
  is the \<open>name\<close> property, which each constructor sets to its class name.
\<close>

record 'j DenScopeErr =
  err_name :: string
  message :: string
  status :: int
  body :: "'j body"

definition DenScopeError :: "string \<Rightarrow> int \<Rightarrow> 'j body \<Rightarrow> 'j DenScopeErr" where
  "DenScopeError msg st b =
     \<lparr>err_name = ''DenScopeError'', message = msg, status = st, body = b\<rparr>"

definition PaymentRequiredError :: "string \<Rightarrow> 'j body \<Rightarrow> 'j DenScopeErr" where
  "PaymentRequiredError msg b = (DenScopeError msg 402 b)\<lparr>err_name := ''PaymentRequiredError''\<rparr>"

definition AuthenticationError :: "string \<Rightarrow> int \<Rightarrow> 'j body \<Rightarrow> 'j DenScopeErr" where
  "AuthenticationError msg st b = (DenScopeError msg st b)\<lparr>err_name := ''AuthenticationError''\<rparr>"

text \<open>
  What a call can throw: an error of this package, a \<open>SyntaxError\<close> of \<open>BigInt\<close> or of
  \<open>response.json()\<close>, or a value that the transport or the signing capability threw
  (kept as it is).
\<close>

datatype 'j thrown = Thrown "'j DenScopeErr" | SyntaxError | Foreign string

section \<open>Constants (\<open>constants.ts\<close>)\<close>

definition DEFAULT_BASE_URL :: string where
  "DEFAULT_BASE_URL = ''https://denscope.vercel.app''"

definition API_PREFIX :: string where
  "API_PREFIX = ''/api/v1''"

definition EIP3009_TYPES :: "(string \<times> (string \<times> string) list) list" where
  "EIP3009_TYPES =
     [(''TransferWithAuthorization'',
       [(''from'', ''address''), (''to'', ''address''), (''value'', ''uint256''),
        (''validAfter'', ''uint256''), (''validBefore'', ''uint256''),
        (''nonce'', ''bytes32'')])]"

definition SIGNATURE_VALIDITY_SECONDS :: int where
  "SIGNATURE_VALIDITY_SECONDS = 3600"

section \<open>The x402 adapter (\<open>x402.ts\<close>)\<close>

subsection \<open>What is signed and what is sent\<close>

record SignDomain =
  dom_name :: string
  dom_version :: string
  dom_chainId :: jsnum
  dom_verifyingContract :: string

record SignMessage =
  msg_from :: string
  msg_to :: string
  msg_value :: int
  msg_validAfter :: int
  msg_validBefore :: int
  msg_nonce :: string

record SignArgs =
  sa_domain :: SignDomain
  sa_types :: "(string \<times> (string \<times> string) list) list"
  sa_primaryType :: string
  sa_message :: SignMessage

record 'j Account =
  address :: string
  signTypedData :: "SignArgs \<Rightarrow> 'j thrown + string"

record Authorization =
  auth_from :: string
  auth_to :: string
  auth_value :: string
  auth_validAfter :: string
  auth_validBefore :: string
  auth_nonce :: string

record Payload =
  signature :: string
  authorization :: Authorization

record Envelope =
  env_x402Version :: int
  env_resource :: ResourceInfo
  env_accepted :: PaymentRequirement
  env_payload :: Payload

subsection \<open>The platform\<close>

record Request =
  req_url :: string
  req_headers :: "(string \<times> string) list"

text \<open>
  A response: its status, its header lookup (by lower-case name), and what \<open>json()\<close> and
  \<open>text()\<close> give (\<open>None\<close> when the promise rejects). \<open>ok\<close> is derived from the status.
\<close>

record 'j Response =
  res_status :: int
  res_headers :: "string \<rightharpoonup> string"
  res_json :: "'j option"
  res_text :: "string option"

definition ok :: "'j Response \<Rightarrow> bool" where
  "ok response = (200 \<le> res_status response \<and> res_status response \<le> 299)"

text \<open>
  The environment of one logical call: the transport (which sees the requests already
  made, so that it may answer the retry differently; \<open>Inl\<close> when the promise rejects),
  the clock in milliseconds, the bytes that \<open>crypto.getRandomValues\<close> writes into the
  array it is given, and the JSON codec. \<open>JSON.parse\<close> is a partial function from text
  (\<open>None\<close> when it throws); the source casts its result to \<open>PaymentRequiredBody\<close>
  unchecked, and the cast is taken at its word here. \<open>JSON.stringify\<close> is total on
  envelopes.
\<close>

record 'j platform =
  fetch :: "Request list \<Rightarrow> Request \<Rightarrow> 'j thrown + 'j Response"
  Date_now :: int
  getRandomValues :: "nat \<Rightarrow> 8 word"
  JSON_parse :: "string \<Rightarrow> PaymentRequiredBody option"
  JSON_stringify :: "Envelope \<Rightarrow> string"

subsection \<open>\<open>decodePaymentRequired\<close>\<close>

text \<open>\<open>!header\<close> holds for an absent header and for an empty one.\<close>

definition decodePaymentRequired :: "'j platform \<Rightarrow> 'j Response \<Rightarrow> 'j thrown + PaymentRequiredBody" where
  "decodePaymentRequired P response =
     (case res_headers response ''payment-required'' of
        None \<Rightarrow> Inl (Thrown (PaymentRequiredError ''402 response missing PAYMENT-REQUIRED header'' Undefined))
      | Some header \<Rightarrow>
          if header = [] then
            Inl (Thrown (PaymentRequiredError ''402 response missing PAYMENT-REQUIRED header'' Undefined))
          else
            (case atob header of
               None \<Rightarrow> Inl (Thrown (PaymentRequiredError ''Failed to decode PAYMENT-REQUIRED header'' Undefined))
             | Some json \<Rightarrow>
                 (case JSON_parse P json of
                    None \<Rightarrow> Inl (Thrown (PaymentRequiredError ''Failed to decode PAYMENT-REQUIRED header'' Undefined))
                  | Some parsed \<Rightarrow> Inr parsed)))"

subsection \<open>\<open>randomNonce\<close>\<close>

definition randomNonce :: "'j platform \<Rightarrow> string" where
  "randomNonce P =
     (let bytes = map (getRandomValues P) [0..<32];
          hex = concat (map (\<lambda>b. padStart 2 CHR ''0'' (toStringRadix 16 (uint b))) bytes)
      in ''0x'' @ hex)"

subsection \<open>\<open>parseChainId\<close>\<close>

definition parseChainId :: "string \<Rightarrow> 'j thrown + jsnum" where
  "parseChainId net =
     (let parts = split CHR '':'' net
      in if length parts \<noteq> 2 \<or> parts ! 0 \<noteq> ''eip155''
         then Inl (Thrown (PaymentRequiredError (''Unsupported network format: '' @ net) Undefined))
         else Inr (parseInt (parts ! 1)))"

subsection \<open>\<open>buildPaymentHeader\<close>\<close>

text \<open>
  The result is the list of calls made to the signing capability together with the value
  returned or thrown. \<open>acct\<close> is \<open>config.account\<close>, the only part of the configuration
  that the function reads. The steps keep the order of the source: the chain id, the
  nonce and the clock, \<open>BigInt(requirement.amount)\<close>, the signature, the envelope.
\<close>

definition buildPaymentHeader ::
  "'j platform \<Rightarrow> 'j Account \<Rightarrow> PaymentRequirement \<Rightarrow> ResourceInfo
     \<Rightarrow> SignArgs list \<times> ('j thrown + string)" where
  "buildPaymentHeader P acct requirement resource' =
     (case parseChainId (network requirement) of
        Inl e \<Rightarrow> ([], Inl e)
      | Inr chainId \<Rightarrow>
          let domain = \<lparr>dom_name = name (extra requirement),
                        dom_version = version (extra requirement),
                        dom_chainId = chainId,
                        dom_verifyingContract = asset requirement\<rparr>;
              nonce = randomNonce P;
              now = Date_now P div 1000;
              validBefore = now + SIGNATURE_VALIDITY_SECONDS
          in (case StringToBigInt (amount requirement) of
                None \<Rightarrow> ([], Inl SyntaxError)
              | Some v \<Rightarrow>
                  let msg = \<lparr>msg_from = address acct,
                             msg_to = payTo requirement,
                             msg_value = v,
                             msg_validAfter = 0,
                             msg_validBefore = validBefore,
                             msg_nonce = nonce\<rparr>;
                      args = \<lparr>sa_domain = domain,
                              sa_types = EIP3009_TYPES,
                              sa_primaryType = ''TransferWithAuthorization'',
                              sa_message = msg\<rparr>
                  in (case signTypedData acct args of
                        Inl e \<Rightarrow> ([args], Inl e)
                      | Inr sig \<Rightarrow>
                          let payload =
                                \<lparr>env_x402Version = 2,
                                 env_resource = resource',
                                 env_accepted = requirement,
                                 env_payload =
                                   \<lparr>signature = sig,
                                    authorization =
                                      \<lparr>auth_from = address acct,
                                       auth_to = payTo requirement,
                                       auth_value = amount requirement,
                                       auth_validAfter = ''0'',
                                       auth_validBefore = String validBefore,
                                       auth_nonce = nonce\<rparr>\<rparr>\<rparr>
                          in ([args], Inr (btoa (JSON_stringify P payload))))))"


subsection \<open>The two objects that \<open>buildPaymentHeader\<close> builds, on their own\<close>

text \<open>
  The argument of \<open>signTypedData\<close> (source lines 60 to 85) and the envelope that is
  serialised (lines 88 to 103), as functions of the chain id, the amount as a \<open>BigInt\<close>
  and the signature.
\<close>

definition signing_request ::
  "'j platform \<Rightarrow> 'j Account \<Rightarrow> PaymentRequirement \<Rightarrow> jsnum \<Rightarrow> int \<Rightarrow> SignArgs" where
  "signing_request P acct requirement chainId v =
     \<lparr>sa_domain = \<lparr>dom_name = name (extra requirement),
                    dom_version = version (extra requirement),
                    dom_chainId = chainId,
                    dom_verifyingContract = asset requirement\<rparr>,
      sa_types = EIP3009_TYPES,
      sa_primaryType = ''TransferWithAuthorization'',
      sa_message = \<lparr>msg_from = address acct,
                     msg_to = payTo requirement,
                     msg_value = v,
                     msg_validAfter = 0,
                     msg_validBefore = Date_now P div 1000 + SIGNATURE_VALIDITY_SECONDS,
                     msg_nonce = randomNonce P\<rparr>\<rparr>"

definition wire_envelope ::
  "'j platform \<Rightarrow> 'j Account \<Rightarrow> PaymentRequirement \<Rightarrow> ResourceInfo \<Rightarrow> string \<Rightarrow> Envelope" where
  "wire_envelope P acct requirement resource' sig =
     \<lparr>env_x402Version = 2,
      env_resource = resource',
      env_accepted = requirement,
      env_payload =
        \<lparr>signature = sig,
         authorization =
           \<lparr>auth_from = address acct,
            auth_to = payTo requirement,
            auth_value = amount requirement,
            auth_validAfter = ''0'',
            auth_validBefore = String (Date_now P div 1000 + SIGNATURE_VALIDITY_SECONDS),
            auth_nonce = randomNonce P\<rparr>\<rparr>\<rparr>"

subsection \<open>Shapes of strings\<close>

text \<open>One byte as \<open>randomNonce\<close> prints it.\<close>

definition hex_byte :: "8 word \<Rightarrow> string" where
  "hex_byte b = padStart 2 CHR ''0'' (toStringRadix 16 (uint b))"

definition isLowerHexDigit :: "char \<Rightarrow> bool" where
  "isLowerHexDigit c = (c \<in> set ''0123456789abcdef'')"

text \<open>A decimal string: decimal digits, at least one, after an optional minus sign.\<close>

definition isDecimalString :: "string \<Rightarrow> bool" where
  "isDecimalString s =
     (let ds = (if s \<noteq> [] \<and> hd s = CHR ''-'' then tl s else s)
      in ds \<noteq> [] \<and> list_all isDigit ds)"

section \<open>The client (\<open>client.ts\<close>)\<close>

text \<open>
  A configuration is an object that may hold \<open>apiKey\<close>, \<open>account\<close> and \<open>baseUrl\<close>; the
  two type guards test which property is there.
\<close>

record 'j DenScopeConfig =
  apiKey :: "string option"
  account :: "'j Account option"
  baseUrl :: "string option"

definition isApiKeyConfig :: "'j DenScopeConfig \<Rightarrow> bool" where
  "isApiKeyConfig config = (apiKey config \<noteq> None)"

definition isX402Config :: "'j DenScopeConfig \<Rightarrow> bool" where
  "isX402Config config = (account config \<noteq> None)"

record 'j DenScope =
  ds_baseUrl :: string
  ds_config :: "'j DenScopeConfig"

text \<open>The constructor removes one trailing slash from the base URL.\<close>

definition new_DenScope :: "'j DenScopeConfig \<Rightarrow> 'j DenScope" where
  "new_DenScope config =
     (let base = (case baseUrl config of None \<Rightarrow> DEFAULT_BASE_URL | Some u \<Rightarrow> u)
      in \<lparr>ds_baseUrl = (if base \<noteq> [] \<and> last base = CHR ''/'' then butlast base else base),
          ds_config = config\<rparr>)"

subsection \<open>\<open>handleResponse\<close>\<close>

definition handleResponse :: "'j Response \<Rightarrow> 'j thrown + 'j" where
  "handleResponse response =
     (if ok response then
        (case res_json response of None \<Rightarrow> Inl SyntaxError | Some parsed \<Rightarrow> Inr parsed)
      else
        let body' = (case res_json response of
                       Some parsed \<Rightarrow> Json parsed
                     | None \<Rightarrow> (case res_text response of
                                  Some raw \<Rightarrow> Text raw
                                | None \<Rightarrow> Undefined))
        in if res_status response = 401 \<or> res_status response = 403 then
             Inl (Thrown (AuthenticationError
                            (''Authentication failed: '' @ String (res_status response))
                            (res_status response) body'))
           else if res_status response = 402 then
             Inl (Thrown (PaymentRequiredError ''Payment required'' body'))
           else
             Inl (Thrown (DenScopeError (''API error: '' @ String (res_status response))
                            (res_status response) body')))"

subsection \<open>\<open>request\<close>\<close>

text \<open>
  What one logical call does to the outside, in order: the requests it hands to the
  transport and the calls it makes to the signing capability.
\<close>

datatype event = Fetched Request | Signed SignArgs

fun fetches :: "event list \<Rightarrow> Request list" where
  "fetches [] = []"
| "fetches (Fetched r # es) = r # fetches es"
| "fetches (Signed a # es) = fetches es"

fun signings :: "event list \<Rightarrow> SignArgs list" where
  "signings [] = []"
| "signings (Fetched r # es) = signings es"
| "signings (Signed a # es) = a # signings es"

definition request :: "'j platform \<Rightarrow> 'j DenScope \<Rightarrow> string \<Rightarrow> event list \<times> ('j thrown + 'j)" where
  "request P this path =
     (let url' = ds_baseUrl this @ API_PREFIX @ path;
          headers = (case apiKey (ds_config this) of
                       Some key \<Rightarrow> [(''Authorization'', ''Bearer '' @ key)]
                     | None \<Rightarrow> []);
          first = \<lparr>req_url = url', req_headers = headers\<rparr>
      in case fetch P [] first of
           Inl e \<Rightarrow> ([Fetched first], Inl e)
         | Inr response \<Rightarrow>
             if res_status response = 402 \<and> isX402Config (ds_config this) then
               (case decodePaymentRequired P response of
                  Inl e \<Rightarrow> ([Fetched first], Inl e)
                | Inr paymentRequired \<Rightarrow>
                    if accepts paymentRequired = [] then
                      ([Fetched first],
                       Inl (Thrown (PaymentRequiredError ''No accepted payment methods''
                                      (Challenge paymentRequired))))
                    else
                      let requirement = hd (accepts paymentRequired)
                      in (case buildPaymentHeader P (the (account (ds_config this)))
                                 requirement (resource paymentRequired) of
                            (calls, Inl e) \<Rightarrow> (Fetched first # map Signed calls, Inl e)
                          | (calls, Inr paymentHeader) \<Rightarrow>
                              let retry = \<lparr>req_url = url',
                                           req_headers = [(''X-PAYMENT'', paymentHeader)]\<rparr>;
                                  events = Fetched first # map Signed calls @ [Fetched retry]
                              in (case fetch P [first] retry of
                                    Inl e \<Rightarrow> (events, Inl e)
                                  | Inr retryResponse \<Rightarrow> (events, handleResponse retryResponse))))
             else ([Fetched first], handleResponse response))"

text \<open>The two requests that \<open>request\<close> can make, on their own.\<close>

definition first_request :: "'j DenScope \<Rightarrow> string \<Rightarrow> Request" where
  "first_request this path =
     \<lparr>req_url = ds_baseUrl this @ API_PREFIX @ path,
      req_headers = (case apiKey (ds_config this) of
                       Some key \<Rightarrow> [(''Authorization'', ''Bearer '' @ key)]
                     | None \<Rightarrow> [])\<rparr>"

definition retry_request :: "'j DenScope \<Rightarrow> string \<Rightarrow> string \<Rightarrow> Request" where
  "retry_request this path paymentHeader =
     \<lparr>req_url = ds_baseUrl this @ API_PREFIX @ path,
      req_headers = [(''X-PAYMENT'', paymentHeader)]\<rparr>"

text \<open>
  The condition under which the header of the retry gets built: the first response has
  status 402, a signing account is configured, the challenge decodes and accepts
  something, and \<open>buildPaymentHeader\<close> returns \<open>h\<close>.
\<close>

definition header_built :: "'j platform \<Rightarrow> 'j DenScope \<Rightarrow> string \<Rightarrow> string \<Rightarrow> bool" where
  "header_built P this path h =
     (\<exists>response challenge.
         fetch P [] (first_request this path) = Inr response
       \<and> res_status response = 402
       \<and> isX402Config (ds_config this)
       \<and> decodePaymentRequired P response = Inr challenge
       \<and> accepts challenge \<noteq> []
       \<and> snd (buildPaymentHeader P (the (account (ds_config this)))
                 (hd (accepts challenge)) (resource challenge)) = Inr h)"

subsection \<open>The four failures of the payment path\<close>

text \<open>
  The error values that the source constructs in \<open>decodePaymentRequired\<close> (absent header,
  undecodable header), in \<open>parseChainId\<close> and in \<open>request\<close> (nothing accepted), under the
  names the specification gives them.
\<close>

definition MissingChallenge :: "'j DenScopeErr" where
  "MissingChallenge = PaymentRequiredError ''402 response missing PAYMENT-REQUIRED header'' Undefined"

definition MalformedChallenge :: "'j DenScopeErr" where
  "MalformedChallenge = PaymentRequiredError ''Failed to decode PAYMENT-REQUIRED header'' Undefined"

definition UnsupportedNetwork :: "string \<Rightarrow> 'j DenScopeErr" where
  "UnsupportedNetwork net = PaymentRequiredError (''Unsupported network format: '' @ net) Undefined"

definition NoAcceptedPaymentMethod :: "PaymentRequiredBody \<Rightarrow> 'j DenScopeErr" where
  "NoAcceptedPaymentMethod challenge =
     PaymentRequiredError ''No accepted payment methods'' (Challenge challenge)"

section \<open>Fixtures\<close>

definition MOCK_REQUIREMENT :: PaymentRequirement where
  "MOCK_REQUIREMENT =
     \<lparr>scheme = ''exact'', network = ''eip155:42220'', amount = ''1000'',
      asset = ''0xcebA9300f2b948710d2653dD7B07f33A8B32118C'', payTo = ''0xPayTo'',
      maxTimeoutSeconds = 30,
      extra = \<lparr>assetTransferMethod = ''eip3009'', name = ''USD Coin'', version = ''2''\<rparr>\<rparr>"

definition MOCK_RESOURCE :: ResourceInfo where
  "MOCK_RESOURCE =
     \<lparr>url = ''https://denscope.vercel.app/api/v1/agent/42220/5/score'',
      description = ''Trust score query for ERC-8004 agent'',
      mimeType = ''application/json''\<rparr>"

definition MOCK_PAYMENT_REQUIRED_BODY :: PaymentRequiredBody where
  "MOCK_PAYMENT_REQUIRED_BODY =
     \<lparr>x402Version = 2, accepts = [MOCK_REQUIREMENT], resource = MOCK_RESOURCE,
      error = ''missing payment header''\<rparr>"

definition mockAccount :: "string Account" where
  "mockAccount =
     \<lparr>address = ''0x1234567890abcdef1234567890abcdef12345678'',
      signTypedData = (\<lambda>args. Inr ''0xdeadbeef'')\<rparr>"

text \<open>
  A printer that stands in for \<open>JSON.stringify\<close> in the examples: exact on strings that need
  no escape and on integers, which is all the fixtures hold.
\<close>

definition quote :: "string \<Rightarrow> string" where
  "quote s = CHR 0x22 # s @ [CHR 0x22]"

definition member :: "string \<Rightarrow> string \<Rightarrow> string" where
  "member key text = quote key @ CHR '':'' # text"

definition object :: "string list \<Rightarrow> string" where
  "object members =
     CHR ''{'' # (case members of [] \<Rightarrow> [] | m # ms \<Rightarrow> m @ concat (map (\<lambda>x. CHR '','' # x) ms)) @ ''}''"

definition array :: "string list \<Rightarrow> string" where
  "array items =
     CHR ''['' # (case items of [] \<Rightarrow> [] | m # ms \<Rightarrow> m @ concat (map (\<lambda>x. CHR '','' # x) ms)) @ '']''"

definition print_resource :: "ResourceInfo \<Rightarrow> string" where
  "print_resource r =
     object [member ''url'' (quote (url r)), member ''description'' (quote (description r)),
             member ''mimeType'' (quote (mimeType r))]"

definition print_requirement :: "PaymentRequirement \<Rightarrow> string" where
  "print_requirement r =
     object [member ''scheme'' (quote (scheme r)), member ''network'' (quote (network r)),
             member ''amount'' (quote (amount r)), member ''asset'' (quote (asset r)),
             member ''payTo'' (quote (payTo r)),
             member ''maxTimeoutSeconds'' (String (maxTimeoutSeconds r)),
             member ''extra''
               (object [member ''assetTransferMethod'' (quote (assetTransferMethod (extra r))),
                        member ''name'' (quote (name (extra r))),
                        member ''version'' (quote (version (extra r)))])]"

definition print_body :: "PaymentRequiredBody \<Rightarrow> string" where
  "print_body b =
     object [member ''x402Version'' (String (x402Version b)),
             member ''accepts'' (array (map print_requirement (accepts b))),
             member ''resource'' (print_resource (resource b)),
             member ''error'' (quote (error b))]"

definition print_envelope :: "Envelope \<Rightarrow> string" where
  "print_envelope e =
     object [member ''x402Version'' (String (env_x402Version e)),
             member ''resource'' (print_resource (env_resource e)),
             member ''accepted'' (print_requirement (env_accepted e)),
             member ''payload''
               (object [member ''signature'' (quote (signature (env_payload e))),
                        member ''authorization''
                          (let a = authorization (env_payload e)
                           in object [member ''from'' (quote (auth_from a)),
                                      member ''to'' (quote (auth_to a)),
                                      member ''value'' (quote (auth_value a)),
                                      member ''validAfter'' (quote (auth_validAfter a)),
                                      member ''validBefore'' (quote (auth_validBefore a)),
                                      member ''nonce'' (quote (auth_nonce a))])])]"

text \<open>
  The platform of the examples: no network, the clock at 1700000000 seconds, the random
  bytes \<open>3, 10, 17, \<dots>\<close>, and a parser that knows the printed fixture challenge only.
\<close>

definition test_platform :: "string platform" where
  "test_platform =
     \<lparr>fetch = (\<lambda>history request. Inl (Foreign ''fetch failed'')),
      Date_now = 1700000000000,
      getRandomValues = (\<lambda>i. of_nat (7 * i + 3)),
      JSON_parse = (\<lambda>text. if text = print_body MOCK_PAYMENT_REQUIRED_BODY
                             then Some MOCK_PAYMENT_REQUIRED_BODY else None),
      JSON_stringify = print_envelope\<rparr>"



text \<open>
  A response of the examples: a status, the challenge header if any, and a body that
  reads \<open>body\<close> both as JSON and as text.
\<close>

definition make_response :: "int \<Rightarrow> string option \<Rightarrow> string Response" where
  "make_response st header =
     \<lparr>res_status = st,
      res_headers = (\<lambda>key. if key = ''payment-required'' then header else None),
      res_json = Some ''body'',
      res_text = Some ''body''\<rparr>"

definition EMPTY_CHALLENGE :: PaymentRequiredBody where
  "EMPTY_CHALLENGE = MOCK_PAYMENT_REQUIRED_BODY\<lparr>accepts := []\<rparr>"

text \<open>
  A transport that answers the first request with status 402 and the given challenge
  header, and any later request with status 200; its parser knows the two printed fixture
  challenges.
\<close>

definition paywall_platform :: "string option \<Rightarrow> string platform" where
  "paywall_platform header =
     test_platform
       \<lparr>fetch := (\<lambda>history request. if history = [] then Inr (make_response 402 header)
                                    else Inr (make_response 200 None)),
        JSON_parse := (\<lambda>text. if text = print_body MOCK_PAYMENT_REQUIRED_BODY
                                 then Some MOCK_PAYMENT_REQUIRED_BODY
                               else if text = print_body EMPTY_CHALLENGE
                                 then Some EMPTY_CHALLENGE
                               else None)\<rparr>"

definition x402_client :: "string DenScope" where
  "x402_client = new_DenScope \<lparr>apiKey = None, account = Some mockAccount, baseUrl = None\<rparr>"

definition apiKey_client :: "string DenScope" where
  "apiKey_client = new_DenScope \<lparr>apiKey = Some ''ds_test123'', account = None, baseUrl = None\<rparr>"

section \<open>Network strings and chain ids\<close>

lemma split_not_Nil: "split sep s \<noteq> []"
  by (induction s) (auto split: list.splits)

lemma split_single: "split sep s = [a] \<longleftrightarrow> s = a \<and> sep \<notin> set a"
proof (induction s arbitrary: a)
  case Nil
  then show ?case by auto
next
  case (Cons c cs)
  show ?case
  proof (cases "c = sep")
    case True
    then show ?thesis using split_not_Nil [of sep cs] by auto
  next
    case False
    then show ?thesis using Cons [of "tl a"] split_not_Nil [of sep cs]
      by (cases a) (auto split: list.splits)
  qed
qed

lemma split_two: "split sep s = [a, b] \<longleftrightarrow> s = a @ sep # b \<and> sep \<notin> set a \<and> sep \<notin> set b"
proof (induction s arbitrary: a)
  case Nil
  then show ?case by auto
next
  case (Cons c cs)
  show ?case
  proof (cases "c = sep")
    case True
    then show ?thesis using split_single [of sep cs b]
      by (cases a) auto
  next
    case False
    then show ?thesis using Cons [of "tl a"] split_not_Nil [of sep cs]
      by (cases a) (auto split: list.splits)
  qed
qed

lemma two_parts_iff:
  "(length parts = 2 \<and> parts ! 0 = ns) \<longleftrightarrow> (\<exists>b. parts = [ns, b])"
  by (cases parts; cases "tl parts"; cases "tl (tl parts)") auto

lemma eip155_no_colon: "CHR '':'' \<notin> set ''eip155''"
  by simp

lemma parseChainId_accepts:
  assumes "net = ''eip155:'' @ sfx" and "CHR '':'' \<notin> set sfx"
  shows "parseChainId net = Inr (parseInt sfx)"
proof -
  have "net = ''eip155'' @ CHR '':'' # sfx" using assms by simp
  with assms(2) eip155_no_colon have "split CHR '':'' net = [''eip155'', sfx]"
    by (simp only: split_two) simp
  then show ?thesis by (simp add: parseChainId_def)
qed

lemma parseChainId_rejects:
  assumes "\<not> (\<exists>sfx. net = ''eip155:'' @ sfx \<and> CHR '':'' \<notin> set sfx)"
  shows "parseChainId net =
    Inl (Thrown (PaymentRequiredError (''Unsupported network format: '' @ net) Undefined))"
proof -
  have "\<not> (\<exists>b. split CHR '':'' net = [''eip155'', b])"
  proof
    assume "\<exists>b. split CHR '':'' net = [''eip155'', b]"
    then obtain b where "split CHR '':'' net = [''eip155'', b]" ..
    then have "net = ''eip155'' @ CHR '':'' # b \<and> CHR '':'' \<notin> set b"
      by (simp only: split_two) simp
    then have "net = ''eip155:'' @ b \<and> CHR '':'' \<notin> set b" by simp
    with assms show False by blast
  qed
  then have "length (split CHR '':'' net) \<noteq> 2 \<or> split CHR '':'' net ! 0 \<noteq> ''eip155''"
    using two_parts_iff [of "split CHR '':'' net" "''eip155''"] by blast
  then show ?thesis unfolding parseChainId_def Let_def by (simp only: if_True)
qed



lemma isDigit_not_space: "isDigit c \<Longrightarrow> \<not> isWhiteSpace c"
  by (auto simp: isDigit_def isWhiteSpace_def)

lemma isDigit_not_sign: "isDigit c \<Longrightarrow> c \<noteq> CHR ''-'' \<and> c \<noteq> CHR ''+''"
  by (auto simp: isDigit_def)

lemma to_number_exact: "v < 2 ^ 53 \<Longrightarrow> to_number False v = Num v"
  by (simp add: to_number_def round_to_double_def)

lemma parseInt_digits:
  assumes "sfx \<noteq> []" and "list_all isDigit sfx" and "digits_value 10 sfx < 2 ^ 53"
  shows "parseInt sfx = Num (digits_value 10 sfx)"
proof -
  from assms(1) obtain c cs where sfx: "sfx = c # cs" by (cases sfx) auto
  with assms(2) have c: "isDigit c" by simp
  have d: "dropWhile isWhiteSpace sfx = sfx"
    using c isDigit_not_space sfx by simp
  have t: "takeWhile isDigit sfx = sfx"
    using assms(2) by (simp add: list_all_iff)
  have h: "hd sfx \<noteq> CHR ''-''" "hd sfx \<noteq> CHR ''+''"
    using c isDigit_not_sign sfx by auto
  have "parseInt sfx = to_number False (digits_value 10 sfx)"
    unfolding parseInt_def Let_def d using assms(1) h by (simp add: t del: takeWhile_eq_all_conv)
  then show ?thesis using assms(3) by (simp only: to_number_exact)
qed

lemma buildPaymentHeader_rejected:
  "parseChainId (network req) = Inl e \<Longrightarrow> buildPaymentHeader P acct req res = ([], Inl e)"
  for P :: "'j platform"
  by (simp add: buildPaymentHeader_def)

lemma buildPaymentHeader_bad_amount:
  "parseChainId (network req) = (Inr c :: 'j thrown + jsnum)
     \<Longrightarrow> StringToBigInt (amount req) = None
     \<Longrightarrow> buildPaymentHeader P acct req res = ([], Inl SyntaxError)"
  for P :: "'j platform"
  by (simp add: buildPaymentHeader_def Let_def)

lemma buildPaymentHeader_signs_once:
  "parseChainId (network req) = (Inr c :: 'j thrown + jsnum)
     \<Longrightarrow> StringToBigInt (amount req) = Some v
     \<Longrightarrow> length (fst (buildPaymentHeader P acct req res)) = 1"
  for P :: "'j platform"
  by (simp add: buildPaymentHeader_def Let_def split: sum.splits)

lemma buildPaymentHeader_chainId:
  "parseChainId (network req) = (Inr c :: 'j thrown + jsnum)
     \<Longrightarrow> \<forall>a \<in> set (fst (buildPaymentHeader P acct req res)). dom_chainId (sa_domain a) = c"
  for P :: "'j platform"
  by (simp add: buildPaymentHeader_def Let_def split: sum.splits option.splits)

text \<open>
  C7 (amended). \<open>buildPaymentHeader\<close> fails with the unsupported-network error, before any
  signing, exactly when the network string is not \<open>eip155:\<close> followed by a colon-free
  suffix; \<open>solana:mainnet\<close> fails so. For an accepted network string the chain id of the
  signing domain is \<open>parseInt\<close> of the suffix: the number the suffix denotes when the
  suffix is a non-empty string of decimal digits that denotes a number below \<open>2^53\<close>.
\<close>

theorem buildPaymentHeader_unsupported_network:
  fixes P :: "'a platform"
  shows
  "((buildPaymentHeader P acct req res =
       ([], Inl (Thrown (PaymentRequiredError (''Unsupported network format: '' @ network req) Undefined))))
      \<longleftrightarrow> \<not> (\<exists>sfx. network req = ''eip155:'' @ sfx \<and> CHR '':'' \<notin> set sfx))
   \<and> (network req = ''solana:mainnet'' \<longrightarrow>
        buildPaymentHeader P acct req res =
          ([], Inl (Thrown (PaymentRequiredError ''Unsupported network format: solana:mainnet'' Undefined))))
   \<and> (\<forall>sfx. network req = ''eip155:'' @ sfx \<and> CHR '':'' \<notin> set sfx \<longrightarrow>
        (\<forall>a \<in> set (fst (buildPaymentHeader P acct req res)).
            dom_chainId (sa_domain a) = parseInt sfx)
        \<and> (sfx \<noteq> [] \<and> list_all isDigit sfx \<and> digits_value 10 sfx < 2 ^ 53 \<longrightarrow>
            (\<forall>a \<in> set (fst (buildPaymentHeader P acct req res)).
                dom_chainId (sa_domain a) = Num (digits_value 10 sfx))))"
proof (intro conjI allI impI)
  let ?unsupported =
    "Thrown (PaymentRequiredError (''Unsupported network format: '' @ network req) Undefined) :: 'a thrown"
  show "(buildPaymentHeader P acct req res = ([], Inl ?unsupported))
      \<longleftrightarrow> \<not> (\<exists>sfx. network req = ''eip155:'' @ sfx \<and> CHR '':'' \<notin> set sfx)"
  proof
    assume failed: "buildPaymentHeader P acct req res = ([], Inl ?unsupported)"
    show "\<not> (\<exists>sfx. network req = ''eip155:'' @ sfx \<and> CHR '':'' \<notin> set sfx)"
    proof
      assume "\<exists>sfx. network req = ''eip155:'' @ sfx \<and> CHR '':'' \<notin> set sfx"
      then obtain sfx where "network req = ''eip155:'' @ sfx" and "CHR '':'' \<notin> set sfx"
        by blast
      then have accepted: "parseChainId (network req) = (Inr (parseInt sfx) :: 'a thrown + jsnum)"
        by (rule parseChainId_accepts)
      show False
      proof (cases "StringToBigInt (amount req)")
        case None
        with accepted have "buildPaymentHeader P acct req res = ([], Inl SyntaxError)"
          by (rule buildPaymentHeader_bad_amount)
        with failed show False by simp
      next
        case (Some v)
        with accepted have "length (fst (buildPaymentHeader P acct req res)) = 1"
          by (rule buildPaymentHeader_signs_once)
        with failed show False by simp
      qed
    qed
  next
    assume "\<not> (\<exists>sfx. network req = ''eip155:'' @ sfx \<and> CHR '':'' \<notin> set sfx)"
    then have "parseChainId (network req) = Inl ?unsupported"
      by (rule parseChainId_rejects)
    then show "buildPaymentHeader P acct req res = ([], Inl ?unsupported)"
      by (rule buildPaymentHeader_rejected)
  qed
next
  assume solana: "network req = ''solana:mainnet''"
  have "\<not> (\<exists>sfx. network req = ''eip155:'' @ sfx \<and> CHR '':'' \<notin> set sfx)"
    by (simp add: solana)
  then have "parseChainId (network req) =
      (Inl (Thrown (PaymentRequiredError (''Unsupported network format: '' @ network req) Undefined))
        :: 'a thrown + jsnum)"
    by (rule parseChainId_rejects)
  then have "buildPaymentHeader P acct req res =
      ([], Inl (Thrown (PaymentRequiredError (''Unsupported network format: '' @ network req) Undefined)))"
    by (rule buildPaymentHeader_rejected)
  then show "buildPaymentHeader P acct req res =
      ([], Inl (Thrown (PaymentRequiredError ''Unsupported network format: solana:mainnet'' Undefined)))"
    by (simp add: solana)
next
  fix sfx
  assume "network req = ''eip155:'' @ sfx \<and> CHR '':'' \<notin> set sfx"
  then have "parseChainId (network req) = (Inr (parseInt sfx) :: 'a thrown + jsnum)"
    by (intro parseChainId_accepts) auto
  then show "\<forall>a \<in> set (fst (buildPaymentHeader P acct req res)). dom_chainId (sa_domain a) = parseInt sfx"
    by (rule buildPaymentHeader_chainId)
next
  fix sfx
  assume net: "network req = ''eip155:'' @ sfx \<and> CHR '':'' \<notin> set sfx"
    and digits: "sfx \<noteq> [] \<and> list_all isDigit sfx \<and> digits_value 10 sfx < 2 ^ 53"
  from net have "parseChainId (network req) = (Inr (parseInt sfx) :: 'a thrown + jsnum)"
    by (intro parseChainId_accepts) auto
  moreover from digits have "parseInt sfx = Num (digits_value 10 sfx)"
    by (intro parseInt_digits) auto
  ultimately have "parseChainId (network req) = (Inr (Num (digits_value 10 sfx)) :: 'a thrown + jsnum)"
    by simp
  then show "\<forall>a \<in> set (fst (buildPaymentHeader P acct req res)).
      dom_chainId (sa_domain a) = Num (digits_value 10 sfx)"
    by (rule buildPaymentHeader_chainId)
qed


theorem buildPaymentHeader_unsupported_network_witness:
  "buildPaymentHeader test_platform mockAccount
       (MOCK_REQUIREMENT\<lparr>network := ''solana:mainnet''\<rparr>) MOCK_RESOURCE =
     ([], Inl (Thrown (PaymentRequiredError ''Unsupported network format: solana:mainnet'' Undefined)))
   \<and> buildPaymentHeader test_platform mockAccount MOCK_REQUIREMENT MOCK_RESOURCE \<noteq>
     ([], Inl (Thrown (PaymentRequiredError ''Unsupported network format: eip155:42220'' Undefined)))
   \<and> map (dom_chainId \<circ> sa_domain)
        (fst (buildPaymentHeader test_platform mockAccount MOCK_REQUIREMENT MOCK_RESOURCE)) =
     [Num 42220]"
proof -
  let ?solana = "MOCK_REQUIREMENT\<lparr>network := ''solana:mainnet''\<rparr>"
  have "network ?solana = ''solana:mainnet''" by simp
  with buildPaymentHeader_unsupported_network [of test_platform mockAccount ?solana MOCK_RESOURCE]
  have first: "buildPaymentHeader test_platform mockAccount ?solana MOCK_RESOURCE =
     ([], Inl (Thrown (PaymentRequiredError ''Unsupported network format: solana:mainnet'' Undefined)))"
    by blast
  have net: "network MOCK_REQUIREMENT = ''eip155:'' @ ''42220'' \<and> CHR '':'' \<notin> set ''42220''"
    by (simp add: MOCK_REQUIREMENT_def)
  have val: "digits_value 10 ''42220'' = 42220"
    by (simp add: digits_value_def digitVal_def)
  have digits: "''42220'' \<noteq> [] \<and> list_all isDigit ''42220'' \<and> digits_value 10 ''42220'' < 2 ^ 53"
    by (simp add: val isDigit_def)
  from net
    buildPaymentHeader_unsupported_network [of test_platform mockAccount MOCK_REQUIREMENT MOCK_RESOURCE]
  have second: "buildPaymentHeader test_platform mockAccount MOCK_REQUIREMENT MOCK_RESOURCE \<noteq>
     ([], Inl (Thrown (PaymentRequiredError (''Unsupported network format: '' @ network MOCK_REQUIREMENT) Undefined)))"
    by blast
  from net digits
    buildPaymentHeader_unsupported_network [of test_platform mockAccount MOCK_REQUIREMENT MOCK_RESOURCE]
  have all: "\<forall>a \<in> set (fst (buildPaymentHeader test_platform mockAccount MOCK_REQUIREMENT MOCK_RESOURCE)).
      dom_chainId (sa_domain a) = Num (digits_value 10 ''42220'')"
    by blast
  have "parseChainId (network MOCK_REQUIREMENT) = (Inr (parseInt ''42220'') :: string thrown + jsnum)"
    using net by (intro parseChainId_accepts) auto
  moreover have "StringToBigInt (amount MOCK_REQUIREMENT) = Some 1000"
    by (simp add: MOCK_REQUIREMENT_def StringToBigInt_def trim_def isWhiteSpace_def isDigit_def
        digits_value_def digitVal_def)
  ultimately have "length (fst (buildPaymentHeader test_platform mockAccount MOCK_REQUIREMENT MOCK_RESOURCE)) = 1"
    by (rule buildPaymentHeader_signs_once)
  then obtain a where "fst (buildPaymentHeader test_platform mockAccount MOCK_REQUIREMENT MOCK_RESOURCE) = [a]"
    by (cases "fst (buildPaymentHeader test_platform mockAccount MOCK_REQUIREMENT MOCK_RESOURCE)") auto
  with all have third: "map (dom_chainId \<circ> sa_domain)
        (fst (buildPaymentHeader test_platform mockAccount MOCK_REQUIREMENT MOCK_RESOURCE)) =
     [Num 42220]"
    by (simp add: val)
  from first second third show ?thesis by (simp add: MOCK_REQUIREMENT_def)
qed

text \<open>
  C7 as stated fails: \<open>eip155:abc\<close> and \<open>eip155:12abc\<close> are accepted (the signing
  capability is called), with the chain ids \<open>NaN\<close> and \<open>12\<close>.
\<close>

theorem chain_id_not_the_suffix_counterexample:
  "map (dom_chainId \<circ> sa_domain)
     (fst (buildPaymentHeader test_platform mockAccount
            (MOCK_REQUIREMENT\<lparr>network := ''eip155:abc''\<rparr>) MOCK_RESOURCE)) = [NaN]
   \<and> map (dom_chainId \<circ> sa_domain)
     (fst (buildPaymentHeader test_platform mockAccount
            (MOCK_REQUIREMENT\<lparr>network := ''eip155:12abc''\<rparr>) MOCK_RESOURCE)) = [Num 12]"
proof -
  have amount: "\<And>n. StringToBigInt (amount (MOCK_REQUIREMENT\<lparr>network := n\<rparr>)) = Some 1000"
    by (simp add: MOCK_REQUIREMENT_def StringToBigInt_def trim_def isWhiteSpace_def isDigit_def
        digits_value_def digitVal_def)
  have shape: "map (dom_chainId \<circ> sa_domain)
     (fst (buildPaymentHeader test_platform mockAccount
            (MOCK_REQUIREMENT\<lparr>network := ''eip155:'' @ sfx\<rparr>) MOCK_RESOURCE)) = [parseInt sfx]"
    if "CHR '':'' \<notin> set sfx" for sfx
  proof -
    let ?req = "MOCK_REQUIREMENT\<lparr>network := ''eip155:'' @ sfx\<rparr>"
    have p: "parseChainId (network ?req) = (Inr (parseInt sfx) :: string thrown + jsnum)"
      using that by (intro parseChainId_accepts) auto
    from p amount have "length (fst (buildPaymentHeader test_platform mockAccount ?req MOCK_RESOURCE)) = 1"
      by (rule buildPaymentHeader_signs_once)
    then obtain a where a: "fst (buildPaymentHeader test_platform mockAccount ?req MOCK_RESOURCE) = [a]"
      by (cases "fst (buildPaymentHeader test_platform mockAccount ?req MOCK_RESOURCE)") auto
    from p have "\<forall>a \<in> set (fst (buildPaymentHeader test_platform mockAccount ?req MOCK_RESOURCE)).
        dom_chainId (sa_domain a) = parseInt sfx"
      by (rule buildPaymentHeader_chainId)
    with a show ?thesis by simp
  qed
  have "parseInt ''abc'' = NaN"
    by (simp add: parseInt_def isWhiteSpace_def isDigit_def)
  moreover have "parseInt ''12abc'' = Num 12"
    by (simp add: parseInt_def isWhiteSpace_def isDigit_def to_number_def round_to_double_def
        digits_value_def digitVal_def)
  ultimately show ?thesis
    using shape [of "''abc''"] shape [of "''12abc''"] by simp
qed



section \<open>Base64: \<open>atob\<close> undoes \<open>btoa\<close>\<close>


lemma of_char_less_256: "(of_char c :: nat) < 256"
proof -
  have "(of_char c :: nat) mod 256 = of_char c" by (rule of_char_mod_256)
  then show ?thesis by (metis mod_less_divisor zero_less_numeral)
qed

lemma of_char_b64_char:
  "n < 64 \<Longrightarrow> (of_char (b64_char n) :: nat) =
     (if n < 26 then 65 + n else if n < 52 then 71 + n else if n < 62 then n - 4
      else if n = 62 then 43 else 47)"
  by (simp add: b64_char_def)

lemma b64_index_char:
  assumes "n < 64"
  shows "b64_index (b64_char n) = Some n" and "b64_char n \<noteq> CHR ''=''"
    and "\<not> isAsciiWhitespace (b64_char n)"
proof -
  note c = of_char_b64_char [OF assms]
  show "b64_index (b64_char n) = Some n"
    unfolding b64_index_def Let_def c using assms by auto
  have "(of_char (b64_char n) :: nat) \<noteq> of_char CHR ''=''"
    unfolding c using assms by auto
  then show "b64_char n \<noteq> CHR ''=''" by auto
  show "\<not> isAsciiWhitespace (b64_char n)"
    unfolding isAsciiWhitespace_def c using assms by auto
qed


lemma sextet_bounds:
  fixes x y z :: nat
  assumes "x < 256" and "y < 256" and "z < 256"
  shows "x div 4 < 64" and "x mod 4 * 16 + y div 16 < 64" and "y mod 16 * 4 + z div 64 < 64"
    and "z mod 64 < 64" and "x mod 4 * 16 < 64" and "y mod 16 * 4 < 64"
  using assms by arith+

lemma sextets_bound: "n \<in> set (sextets s) \<Longrightarrow> n < 64"
proof (induction s rule: sextets.induct)
  case (1 a b c rest)
  note b = sextet_bounds [OF of_char_less_256 [of a] of_char_less_256 [of b] of_char_less_256 [of c]]
  from 1 b show ?case by (auto simp: Let_def)
next
  case (2 a b)
  note b = sextet_bounds [OF of_char_less_256 [of a] of_char_less_256 [of b] of_char_less_256 [of b]]
  from 2 b show ?case by (auto simp: Let_def)
next
  case (3 a)
  note b = sextet_bounds [OF of_char_less_256 [of a] of_char_less_256 [of a] of_char_less_256 [of a]]
  from 3 b show ?case by (auto simp: Let_def)
next
  case 4
  then show ?case by simp
qed


lemma padding_cases: "padding s = [] \<or> padding s = ''='' \<or> padding s = ''==''"
  by (induction s rule: padding.induct) simp_all

lemma btoa_sextets: "btoa s = map b64_char (sextets s) @ padding s"
  by (induction s rule: sextets.induct) (simp_all add: Let_def)

lemma length_sextets: "length (sextets s) mod 4 \<noteq> 1"
  by (induction s rule: sextets.induct) (simp_all add: Let_def)

lemma length_btoa: "length (btoa s) mod 4 = 0"
  by (induction s rule: btoa.induct) (simp_all add: Let_def)

lemma strip_padding_append:
  assumes "CHR ''='' \<notin> set chars" and "length (chars @ pad) mod 4 = 0"
    and "pad = [] \<or> pad = ''='' \<or> pad = ''==''"
  shows "strip_padding (chars @ pad) = chars"
proof -
  have last_body: "chars \<noteq> [] \<Longrightarrow> last chars \<noteq> CHR ''=''"
    using assms(1) last_in_set by metis
  from assms(3) consider "pad = []" | "pad = ''=''" | "pad = ''==''" by blast
  then show ?thesis
  proof cases
    case 1
    then show ?thesis using last_body by (cases "chars = []") (simp_all add: strip_padding_def)
  next
    case 2
    then show ?thesis using last_body assms(2)
      by (cases "chars = []") (simp_all add: strip_padding_def butlast_append)
  next
    case 3
    then show ?thesis using assms(2) by (simp add: strip_padding_def butlast_append)
  qed
qed

lemma body_chars:
  assumes "c \<in> set (map b64_char (sextets s))"
  shows "c \<noteq> CHR ''=''" and "\<not> isAsciiWhitespace c" and "b64_index c \<noteq> None"
proof -
  from assms obtain n where n: "n \<in> set (sextets s)" and c: "c = b64_char n" by auto
  from n have "n < 64" by (rule sextets_bound)
  then show "c \<noteq> CHR ''=''" and "\<not> isAsciiWhitespace c" and "b64_index c \<noteq> None"
    using b64_index_char [of n] c by simp_all
qed

lemma btoa_no_whitespace: "filter (\<lambda>c. \<not> isAsciiWhitespace c) (btoa s) = btoa s"
proof -
  have "\<not> isAsciiWhitespace c" if "c \<in> set (btoa s)" for c
  proof -
    from that have "c \<in> set (map b64_char (sextets s)) \<or> c \<in> set (padding s)"
      by (simp add: btoa_sextets)
    then show ?thesis
    proof
      assume "c \<in> set (map b64_char (sextets s))"
      then show ?thesis by (rule body_chars)
    next
      assume "c \<in> set (padding s)"
      then have "c = CHR ''=''" using padding_cases [of s] by auto
      then show ?thesis by (simp add: isAsciiWhitespace_def)
    qed
  qed
  then show ?thesis by (simp add: filter_id_conv)
qed

lemma map_index_body:
  "map (\<lambda>c. the (b64_index c)) (map b64_char (sextets s)) = sextets s"
proof -
  have "the (b64_index (b64_char n)) = n" if "n \<in> set (sextets s)" for n
    using sextets_bound [OF that] b64_index_char(1) [of n] by simp
  then show ?thesis by (simp add: map_idI)
qed


lemma regroup:
  fixes x y z :: nat
  assumes "y < 256" and "z < 256"
  shows "x div 4 * 4 + (x mod 4 * 16 + y div 16) div 16 = x"
    and "(x mod 4 * 16 + y div 16) mod 16 * 16 + (y mod 16 * 4 + z div 64) div 4 = y"
    and "(y mod 16 * 4 + z div 64) mod 4 * 64 + z mod 64 = z"
    and "(x mod 4 * 16 + y div 16) mod 16 * 16 + (y mod 16 * 4) div 4 = y"
    and "x div 4 * 4 + (x mod 4 * 16) div 16 = x"
proof -
  have hi: "y div 16 < 16" "z div 64 < 4"
    using assms by simp_all
  show "x div 4 * 4 + (x mod 4 * 16 + y div 16) div 16 = x"
    using hi by simp
  show "(x mod 4 * 16 + y div 16) mod 16 * 16 + (y mod 16 * 4 + z div 64) div 4 = y"
    using hi by simp
  show "(y mod 16 * 4 + z div 64) mod 4 * 64 + z mod 64 = z"
    using hi by simp
  show "(x mod 4 * 16 + y div 16) mod 16 * 16 + (y mod 16 * 4) div 4 = y"
    using hi by simp
  show "x div 4 * 4 + (x mod 4 * 16) div 16 = x"
    by simp
qed


lemma decode_sextets_sextets: "decode_sextets (sextets s) = s"
proof (induction s rule: sextets.induct)
  case (1 a b c rest)
  note r = regroup [OF of_char_less_256 [of b] of_char_less_256 [of c]]
  have "decode_sextets (sextets rest) = rest"
    by (rule 1 [OF refl refl refl])
  then show ?case
    unfolding sextets.simps Let_def decode_sextets.simps r by simp
next
  case (2 a b)
  note r = regroup [OF of_char_less_256 [of b] of_char_less_256 [of b]]
  show ?case
    unfolding sextets.simps Let_def decode_sextets.simps r by simp
next
  case (3 a)
  note r = regroup [OF of_char_less_256 [of a] of_char_less_256 [of a]]
  show ?case
    unfolding sextets.simps Let_def decode_sextets.simps r by simp
next
  case 4
  show ?case by simp
qed

lemma atob_btoa: "atob (btoa s) = Some s"
proof -
  let ?body = "map b64_char (sextets s)"
  have eq: "CHR ''='' \<notin> set ?body"
    using body_chars(1) [of "CHR ''=''" s] by blast
  have len: "length (?body @ padding s) mod 4 = 0"
    using length_btoa [of s] by (simp only: btoa_sextets)
  have strip: "strip_padding (btoa s) = ?body"
    unfolding btoa_sextets using eq len padding_cases by (rule strip_padding_append)
  have l1: "length ?body mod 4 \<noteq> 1"
    using length_sextets [of s] by simp
  have alphabet: "\<not> (\<exists>c \<in> set ?body. b64_index c = None)"
    using body_chars(3) [of _ s] by blast
  show ?thesis
    unfolding atob_def btoa_no_whitespace strip Let_def
    using l1 alphabet by (simp only: if_False map_index_body decode_sextets_sextets)
qed

lemma btoa_empty_iff: "btoa s = [] \<longleftrightarrow> s = []"
  by (induction s rule: btoa.induct) (simp_all add: Let_def)



section \<open>The nonce\<close>

lemma digitVal_digitChar_table:
  "list_all (\<lambda>d. digitVal (digitChar (int d)) = int d \<and> isLowerHexDigit (digitChar (int d))) [0..<16]"
  by (simp add: digitVal_def digitChar_def isLowerHexDigit_def upt_rec [of _ "numeral _"])

lemma digitChar_props:
  assumes "0 \<le> d" and "d < 16"
  shows "digitVal (digitChar d) = d" and "isLowerHexDigit (digitChar d)"
proof -
  have "nat d \<in> set [0..<16]" using assms by simp
  with digitVal_digitChar_table
  have "digitVal (digitChar (int (nat d))) = int (nat d) \<and> isLowerHexDigit (digitChar (int (nat d)))"
    unfolding list_all_iff by blast
  with assms show "digitVal (digitChar d) = d" and "isLowerHexDigit (digitChar d)" by simp_all
qed

lemma toStringRadix_16_byte:
  assumes "0 \<le> n" and "n < 256"
  shows "padStart 2 CHR ''0'' (toStringRadix 16 n) = [digitChar (n div 16), digitChar (n mod 16)]"
proof (cases "n < 16")
  case True
  then have "toStringRadix 16 n = [digitChar n]" by (simp add: toStringRadix.simps)
  moreover have "n div 16 = 0" "n mod 16 = n" using True assms by simp_all
  ultimately show ?thesis by (simp add: padStart_def digitChar_def)
next
  case False
  have "n div 16 < 16" using assms by simp
  then have "toStringRadix 16 (n div 16) = [digitChar (n div 16)]"
    by (simp add: toStringRadix.simps)
  with False have "toStringRadix 16 n = [digitChar (n div 16), digitChar (n mod 16)]"
    by (subst toStringRadix.simps) simp
  then show ?thesis by (simp add: padStart_def)
qed

lemma hex_byte_digits: "hex_byte b = [digitChar (uint b div 16), digitChar (uint b mod 16)]"
proof -
  have "0 \<le> uint b" by simp
  moreover have "uint b < 256" using uint_bounded [of b] by simp
  ultimately show ?thesis unfolding hex_byte_def by (rule toStringRadix_16_byte)
qed

lemma hex_byte_inj: "hex_byte b = hex_byte b' \<Longrightarrow> b = b'"
proof -
  assume eq: "hex_byte b = hex_byte b'"
  have range: "0 \<le> uint w div 16" "uint w div 16 < 16" "0 \<le> uint w mod 16" "uint w mod 16 < 16"
    for w :: "8 word"
    using uint_bounded [of w] by (simp_all add: pos_imp_zdiv_nonneg_iff)
  from eq have "digitChar (uint b div 16) = digitChar (uint b' div 16)"
    and "digitChar (uint b mod 16) = digitChar (uint b' mod 16)"
    by (simp_all add: hex_byte_digits)
  then have "digitVal (digitChar (uint b div 16)) = digitVal (digitChar (uint b' div 16))"
    and "digitVal (digitChar (uint b mod 16)) = digitVal (digitChar (uint b' mod 16))"
    by simp_all
  then have "uint b div 16 = uint b' div 16" and "uint b mod 16 = uint b' mod 16"
    by (simp_all add: digitChar_props(1) range)
  then have "uint b = uint b'"
    by (metis div_mult_mod_eq)
  then show "b = b'" by (simp add: word_uint_eq_iff)
qed

lemma hex_byte_chars: "length (hex_byte b) = 2" "list_all isLowerHexDigit (hex_byte b)"
proof -
  have range: "0 \<le> uint b div 16" "uint b div 16 < 16" "0 \<le> uint b mod 16" "uint b mod 16 < 16"
    using uint_bounded [of b] by (simp_all add: pos_imp_zdiv_nonneg_iff)
  show "length (hex_byte b) = 2" by (simp add: hex_byte_digits)
  show "list_all isLowerHexDigit (hex_byte b)"
    by (simp add: hex_byte_digits digitChar_props(2) range)
qed

lemma concat_hex_inj:
  "concat (map hex_byte bs) = concat (map hex_byte bs') \<Longrightarrow> length bs = length bs' \<Longrightarrow> bs = bs'"
proof (induction bs bs' rule: list_induct2')
  case (4 b bs b' bs')
  have "hex_byte b @ concat (map hex_byte bs) = hex_byte b' @ concat (map hex_byte bs')"
    using 4(2) by simp
  then have "hex_byte b = hex_byte b' \<and> concat (map hex_byte bs) = concat (map hex_byte bs')"
    by (simp add: hex_byte_chars(1))
  with 4 show ?case by (auto dest: hex_byte_inj)
qed simp_all

lemma randomNonce_hex:
  "randomNonce P = ''0x'' @ concat (map hex_byte (map (getRandomValues P) [0..<32]))"
  unfolding randomNonce_def Let_def hex_byte_def [abs_def] by (rule refl)

lemma length_concat_hex: "length (concat (map hex_byte bs)) = 2 * length bs"
  by (induction bs) (simp_all add: hex_byte_chars(1))

lemma list_all_concat_hex: "list_all isLowerHexDigit (concat (map hex_byte bs))"
  by (induction bs) (simp_all add: hex_byte_chars(2))

lemma randomNonce_eq_iff:
  "randomNonce P = randomNonce P' \<longleftrightarrow>
     map (getRandomValues P) [0..<32] = map (getRandomValues P') [0..<32]"
proof
  assume "randomNonce P = randomNonce P'"
  then have "concat (map hex_byte (map (getRandomValues P) [0..<32])) =
      concat (map hex_byte (map (getRandomValues P') [0..<32]))"
    by (simp only: randomNonce_hex same_append_eq)
  then show "map (getRandomValues P) [0..<32] = map (getRandomValues P') [0..<32]"
    by (rule concat_hex_inj) simp
next
  assume "map (getRandomValues P) [0..<32] = map (getRandomValues P') [0..<32]"
  then show "randomNonce P = randomNonce P'" by (simp only: randomNonce_hex)
qed

lemma randomNonce_format:
  "length (randomNonce P) = 66" "take 2 (randomNonce P) = ''0x''"
  "length (drop 2 (randomNonce P)) = 64"
  "list_all isLowerHexDigit (drop 2 (randomNonce P))"
  unfolding randomNonce_hex
  by (simp_all add: length_concat_hex list_all_concat_hex del: map_map)




section \<open>Decimal strings\<close>

lemma isDigit_digitChar_table:
  "list_all (\<lambda>d. isDigit (digitChar (int d))) [0..<10]"
  by (simp add: isDigit_def digitChar_def upt_rec [of _ "numeral _"])

lemma isDigit_digitChar:
  assumes "0 \<le> d" and "d < 10"
  shows "isDigit (digitChar d)"
proof -
  have "nat d \<in> set [0..<10]" using assms by simp
  with isDigit_digitChar_table have "isDigit (digitChar (int (nat d)))"
    unfolding list_all_iff by blast
  with assms show ?thesis by simp
qed

lemma digits_value_snoc: "digits_value r (ds @ [c]) = digits_value r ds * r + digitVal c"
  by (simp add: digits_value_def)

lemma toStringRadix_10:
  "0 \<le> n \<Longrightarrow> toStringRadix 10 n \<noteq> [] \<and> list_all isDigit (toStringRadix 10 n)
     \<and> digits_value 10 (toStringRadix 10 n) = n"
proof (induction "10 :: int" n rule: toStringRadix.induct)
  case (1 n)
  show ?case
  proof (cases "n < 10")
    case True
    then have "toStringRadix 10 n = [digitChar n]" by (simp add: toStringRadix.simps)
    moreover have "digitVal (digitChar n) = n" using True 1(2) by (simp add: digitChar_props(1))
    ultimately show ?thesis
      using True 1(2) by (simp add: isDigit_digitChar digits_value_def)
  next
    case False
    then have step: "toStringRadix 10 n = toStringRadix 10 (n div 10) @ [digitChar (n mod 10)]"
      by (subst toStringRadix.simps) simp
    have "0 \<le> n div 10" using 1(2) by (simp add: pos_imp_zdiv_nonneg_iff)
    with 1(1) False have ih: "list_all isDigit (toStringRadix 10 (n div 10))"
      "digits_value 10 (toStringRadix 10 (n div 10)) = n div 10" by simp_all
    have m: "0 \<le> n mod 10" "n mod 10 < 10" by simp_all
    then have "digitVal (digitChar (n mod 10)) = n mod 10" "isDigit (digitChar (n mod 10))"
      by (simp_all add: digitChar_props(1) isDigit_digitChar)
    then show ?thesis
      unfolding step using ih by (simp add: digits_value_snoc)
  qed
qed

lemma trim_no_space: "\<forall>c \<in> set s. \<not> isWhiteSpace c \<Longrightarrow> trim s = s"
proof -
  assume a: "\<forall>c \<in> set s. \<not> isWhiteSpace c"
  then have "dropWhile isWhiteSpace s = s" by (cases s) simp_all
  moreover from a have "dropWhile isWhiteSpace (rev s) = rev s" by (cases "rev s") (simp, fastforce)
  ultimately show ?thesis by (simp add: trim_def)
qed

lemma StringToBigInt_digits:
  assumes "ds \<noteq> []" and "list_all isDigit ds"
  shows "StringToBigInt ds = Some (digits_value 10 ds)"
    and "StringToBigInt (CHR ''-'' # ds) = Some (- digits_value 10 ds)"
proof -
  have nospace: "\<forall>c \<in> set ds. \<not> isWhiteSpace c"
    using assms(2) isDigit_not_space by (auto simp: list_all_iff)
  then have "trim ds = ds" by (rule trim_no_space)
  then show "StringToBigInt ds = Some (digits_value 10 ds)"
    using assms by (simp add: StringToBigInt_def)
  have "\<not> isWhiteSpace CHR ''-''" by (simp add: isWhiteSpace_def)
  with nospace have "trim (CHR ''-'' # ds) = CHR ''-'' # ds"
    by (intro trim_no_space) simp
  moreover have "\<not> isDigit CHR ''-''" by (simp add: isDigit_def)
  ultimately show "StringToBigInt (CHR ''-'' # ds) = Some (- digits_value 10 ds)"
    using assms by (simp add: StringToBigInt_def)
qed

lemma StringToBigInt_String: "StringToBigInt (String n) = Some n"
proof (cases "n < 0")
  case True
  then have "0 \<le> - n" by simp
  note t = toStringRadix_10 [OF this]
  from t have "StringToBigInt (CHR ''-'' # toStringRadix 10 (- n)) = Some (- digits_value 10 (toStringRadix 10 (- n)))"
    by (intro StringToBigInt_digits(2)) simp_all
  with t True show ?thesis by (simp add: String_def)
next
  case False
  then have "0 \<le> n" by simp
  note t = toStringRadix_10 [OF this]
  from t have "StringToBigInt (toStringRadix 10 n) = Some (digits_value 10 (toStringRadix 10 n))"
    by (intro StringToBigInt_digits(1)) simp_all
  with t False show ?thesis by (simp add: String_def)
qed

lemma isDecimalString_String: "isDecimalString (String n)"
proof (cases "n < 0")
  case True
  then have "0 \<le> - n" by simp
  note t = toStringRadix_10 [OF this]
  with True show ?thesis by (simp add: String_def isDecimalString_def)
next
  case False
  then have "0 \<le> n" by simp
  note t = toStringRadix_10 [OF this]
  then obtain c cs where cs: "toStringRadix 10 n = c # cs" by (cases "toStringRadix 10 n") auto
  with t have "isDigit c" by simp
  then have "c \<noteq> CHR ''-''" using isDigit_not_sign by blast
  with t cs False show ?thesis by (simp add: String_def isDecimalString_def)
qed




section \<open>The outcomes of \<open>buildPaymentHeader\<close>\<close>

lemma buildPaymentHeader_outcome:
  fixes P :: "'j platform"
  shows "buildPaymentHeader P acct req res =
     (case parseChainId (network req) of
        Inl e \<Rightarrow> ([], Inl e)
      | Inr c \<Rightarrow>
          (case StringToBigInt (amount req) of
             None \<Rightarrow> ([], Inl SyntaxError)
           | Some v \<Rightarrow>
               (case signTypedData acct (signing_request P acct req c v) of
                  Inl e \<Rightarrow> ([signing_request P acct req c v], Inl e)
                | Inr sig \<Rightarrow>
                    ([signing_request P acct req c v],
                     Inr (btoa (JSON_stringify P (wire_envelope P acct req res sig)))))))"
  by (simp add: buildPaymentHeader_def signing_request_def wire_envelope_def Let_def
      split: sum.splits option.splits)

lemma buildPaymentHeader_calls:
  fixes P :: "'j platform"
  assumes "a \<in> set (fst (buildPaymentHeader P acct req res))"
  shows "\<exists>c v. parseChainId (network req) = (Inr c :: 'j thrown + jsnum)
           \<and> StringToBigInt (amount req) = Some v
           \<and> a = signing_request P acct req c v
           \<and> fst (buildPaymentHeader P acct req res) = [a]"
  using assms unfolding buildPaymentHeader_outcome
  by (auto split: sum.splits option.splits)

lemma buildPaymentHeader_returns:
  fixes P :: "'j platform"
  assumes "snd (buildPaymentHeader P acct req res) = Inr h"
  shows "\<exists>c v sig. parseChainId (network req) = (Inr c :: 'j thrown + jsnum)
           \<and> StringToBigInt (amount req) = Some v
           \<and> fst (buildPaymentHeader P acct req res) = [signing_request P acct req c v]
           \<and> signTypedData acct (signing_request P acct req c v) = Inr sig
           \<and> h = btoa (JSON_stringify P (wire_envelope P acct req res sig))"
  using assms unfolding buildPaymentHeader_outcome
  by (auto split: sum.splits option.splits)

lemma buildPaymentHeader_signed:
  fixes P :: "'j platform"
  assumes "parseChainId (network req) = (Inr c :: 'j thrown + jsnum)"
    and "StringToBigInt (amount req) = Some v"
    and "signTypedData acct (signing_request P acct req c v) = Inr sig"
  shows "buildPaymentHeader P acct req res =
      ([signing_request P acct req c v],
       Inr (btoa (JSON_stringify P (wire_envelope P acct req res sig))))"
  unfolding buildPaymentHeader_outcome using assms by simp




subsection \<open>The fixtures, evaluated\<close>

lemma mock_chainId:
  "parseChainId (network (MOCK_REQUIREMENT\<lparr>amount := x\<rparr>)) = (Inr (Num 42220) :: 'j thrown + jsnum)"
proof -
  have val: "digits_value 10 ''42220'' = 42220"
    by (simp add: digits_value_def digitVal_def)
  have "parseInt ''42220'' = Num (digits_value 10 ''42220'')"
    by (rule parseInt_digits) (simp_all add: val isDigit_def)
  moreover have "parseChainId (network (MOCK_REQUIREMENT\<lparr>amount := x\<rparr>)) =
      (Inr (parseInt ''42220'') :: 'j thrown + jsnum)"
    by (rule parseChainId_accepts) (simp_all add: MOCK_REQUIREMENT_def)
  ultimately show ?thesis by (simp add: val)
qed

lemma mock_amount: "StringToBigInt (amount MOCK_REQUIREMENT) = Some 1000"
proof -
  have "StringToBigInt ''1000'' = Some (digits_value 10 ''1000'')"
    by (rule StringToBigInt_digits(1)) (simp_all add: isDigit_def)
  then show ?thesis by (simp add: MOCK_REQUIREMENT_def digits_value_def digitVal_def)
qed

lemma mock_hex_amount: "StringToBigInt ''0x10'' = Some 16"
  by (simp add: StringToBigInt_def trim_def isWhiteSpace_def isDigit_def isRadixDigit_def
      isHexDigit_def digits_value_def digitVal_def)

lemma mock_signature: "signTypedData mockAccount a = Inr ''0xdeadbeef''"
  by (simp add: mockAccount_def)

lemma mock_build:
  fixes P :: "string platform"
  shows "buildPaymentHeader P mockAccount MOCK_REQUIREMENT res =
     ([signing_request P mockAccount MOCK_REQUIREMENT (Num 42220) 1000],
      Inr (btoa (JSON_stringify P
                  (wire_envelope P mockAccount MOCK_REQUIREMENT res ''0xdeadbeef''))))"
  using mock_chainId [of "amount MOCK_REQUIREMENT"] mock_amount mock_signature
  by (intro buildPaymentHeader_signed) simp_all




section \<open>The signing domain\<close>

lemma parseChainId_Inr_shape:
  assumes "parseChainId net = (Inr chainId :: 'j thrown + jsnum)"
  shows "\<exists>sfx. net = ''eip155:'' @ sfx \<and> CHR '':'' \<notin> set sfx \<and> chainId = parseInt sfx"
proof (rule ccontr)
  assume none: "\<not> (\<exists>sfx. net = ''eip155:'' @ sfx \<and> CHR '':'' \<notin> set sfx \<and> chainId = parseInt sfx)"
  show False
  proof (cases "\<exists>sfx. net = ''eip155:'' @ sfx \<and> CHR '':'' \<notin> set sfx")
    case True
    then obtain sfx where shape: "net = ''eip155:'' @ sfx" "CHR '':'' \<notin> set sfx" by blast
    then have "parseChainId net = (Inr (parseInt sfx) :: 'j thrown + jsnum)"
      by (rule parseChainId_accepts)
    with assms have "chainId = parseInt sfx" by simp
    with shape none show False by blast
  next
    case False
    then have "parseChainId net =
        (Inl (Thrown (PaymentRequiredError (''Unsupported network format: '' @ net) Undefined))
          :: 'j thrown + jsnum)"
      by (rule parseChainId_rejects)
    with assms show False by simp
  qed
qed

text \<open>
  C1. The network string of a requirement parses exactly when it is \<open>eip155:\<close> followed
  by a colon-free suffix, and the parsed chain id is then \<open>parseInt\<close> of that suffix (the
  number the suffix denotes, when the suffix is a string of decimal digits denoting a
  number below \<open>2^53\<close>). Every call that \<open>buildPaymentHeader\<close> makes to the signing
  capability is for such a requirement and carries the domain whose name and version are
  those of \<open>requirement.extra\<close>, whose chain id is that parsed number and whose verifying
  contract is \<open>requirement.asset\<close>. The call is made, once, whenever the network string
  parses and \<open>BigInt(requirement.amount)\<close> does not throw.
\<close>

theorem signing_domain_from_requirement:
  fixes P :: "'j platform"
  shows "(\<forall>chainId. parseChainId (network requirement) = (Inr chainId :: 'j thrown + jsnum) \<longleftrightarrow>
            (\<exists>sfx. network requirement = ''eip155:'' @ sfx \<and> CHR '':'' \<notin> set sfx
                 \<and> chainId = parseInt sfx))
       \<and> (\<forall>a \<in> set (fst (buildPaymentHeader P acct requirement res)).
            \<exists>sfx. network requirement = ''eip155:'' @ sfx \<and> CHR '':'' \<notin> set sfx
              \<and> sa_domain a = \<lparr>dom_name = name (extra requirement),
                                dom_version = version (extra requirement),
                                dom_chainId = parseInt sfx,
                                dom_verifyingContract = asset requirement\<rparr>)
       \<and> (\<forall>sfx. network requirement = ''eip155:'' @ sfx \<and> CHR '':'' \<notin> set sfx \<longrightarrow>
              (\<forall>a \<in> set (fst (buildPaymentHeader P acct requirement res)).
                 sa_domain a = \<lparr>dom_name = name (extra requirement),
                                 dom_version = version (extra requirement),
                                 dom_chainId = parseInt sfx,
                                 dom_verifyingContract = asset requirement\<rparr>)
            \<and> (sfx \<noteq> [] \<and> list_all isDigit sfx \<and> digits_value 10 sfx < 2 ^ 53 \<longrightarrow>
                 parseInt sfx = Num (digits_value 10 sfx))
            \<and> (StringToBigInt (amount requirement) \<noteq> None \<longrightarrow>
                 length (fst (buildPaymentHeader P acct requirement res)) = 1))"
proof -
  let ?calls = "fst (buildPaymentHeader P acct requirement res)"
  let ?domain = "\<lambda>c. \<lparr>dom_name = name (extra requirement),
                        dom_version = version (extra requirement),
                        dom_chainId = c,
                        dom_verifyingContract = asset requirement\<rparr>"
  have parses: "parseChainId (network requirement) = (Inr chainId :: 'j thrown + jsnum) \<longleftrightarrow>
            (\<exists>sfx. network requirement = ''eip155:'' @ sfx \<and> CHR '':'' \<notin> set sfx
                 \<and> chainId = parseInt sfx)" for chainId
  proof
    assume "parseChainId (network requirement) = (Inr chainId :: 'j thrown + jsnum)"
    then show "\<exists>sfx. network requirement = ''eip155:'' @ sfx \<and> CHR '':'' \<notin> set sfx
                 \<and> chainId = parseInt sfx"
      by (rule parseChainId_Inr_shape)
  next
    assume "\<exists>sfx. network requirement = ''eip155:'' @ sfx \<and> CHR '':'' \<notin> set sfx
                 \<and> chainId = parseInt sfx"
    then obtain sfx where "network requirement = ''eip155:'' @ sfx" "CHR '':'' \<notin> set sfx"
      and c: "chainId = parseInt sfx" by blast
    then have "parseChainId (network requirement) = (Inr (parseInt sfx) :: 'j thrown + jsnum)"
      by (intro parseChainId_accepts)
    with c show "parseChainId (network requirement) = (Inr chainId :: 'j thrown + jsnum)" by simp
  qed
  have every_call: "\<exists>sfx. network requirement = ''eip155:'' @ sfx \<and> CHR '':'' \<notin> set sfx
              \<and> sa_domain a = ?domain (parseInt sfx)"
    if "a \<in> set ?calls" for a
  proof -
    from buildPaymentHeader_calls [OF that] obtain c v
      where p: "parseChainId (network requirement) = (Inr c :: 'j thrown + jsnum)"
        and a: "a = signing_request P acct requirement c v"
      by blast
    from parseChainId_Inr_shape [OF p] obtain sfx
      where "network requirement = ''eip155:'' @ sfx" "CHR '':'' \<notin> set sfx" "c = parseInt sfx"
      by blast
    moreover from a have "sa_domain a = ?domain c" by (simp add: signing_request_def)
    ultimately show ?thesis by blast
  qed
  have accepted: "(\<forall>a \<in> set ?calls. sa_domain a = ?domain (parseInt sfx))
            \<and> (sfx \<noteq> [] \<and> list_all isDigit sfx \<and> digits_value 10 sfx < 2 ^ 53 \<longrightarrow>
                 parseInt sfx = Num (digits_value 10 sfx))
            \<and> (StringToBigInt (amount requirement) \<noteq> None \<longrightarrow> length ?calls = 1)"
    if shape: "network requirement = ''eip155:'' @ sfx \<and> CHR '':'' \<notin> set sfx" for sfx
  proof (intro conjI ballI impI)
    from shape have p: "parseChainId (network requirement) = (Inr (parseInt sfx) :: 'j thrown + jsnum)"
      by (intro parseChainId_accepts) auto
    {
      fix a
      assume "a \<in> set ?calls"
      from buildPaymentHeader_calls [OF this] obtain c v
        where "parseChainId (network requirement) = (Inr c :: 'j thrown + jsnum)"
          and "a = signing_request P acct requirement c v"
        by blast
      with p show "sa_domain a = ?domain (parseInt sfx)" by (simp add: signing_request_def)
    }
    {
      assume "sfx \<noteq> [] \<and> list_all isDigit sfx \<and> digits_value 10 sfx < 2 ^ 53"
      then show "parseInt sfx = Num (digits_value 10 sfx)"
        by (intro parseInt_digits) auto
    }
    {
      assume "StringToBigInt (amount requirement) \<noteq> None"
      then obtain v where "StringToBigInt (amount requirement) = Some v" by auto
      with p show "length ?calls = 1" by (rule buildPaymentHeader_signs_once)
    }
  qed
  from parses every_call accepted show ?thesis by blast
qed

theorem signing_domain_from_requirement_witness:
  "map sa_domain (fst (buildPaymentHeader test_platform mockAccount MOCK_REQUIREMENT MOCK_RESOURCE)) =
     [\<lparr>dom_name = ''USD Coin'', dom_version = ''2'', dom_chainId = Num 42220,
       dom_verifyingContract = ''0xcebA9300f2b948710d2653dD7B07f33A8B32118C''\<rparr>]
   \<and> fst (buildPaymentHeader test_platform mockAccount
            (MOCK_REQUIREMENT\<lparr>network := ''solana:mainnet''\<rparr>) MOCK_RESOURCE) = []"
proof -
  let ?calls = "fst (buildPaymentHeader test_platform mockAccount MOCK_REQUIREMENT MOCK_RESOURCE)"
  let ?solana = "MOCK_REQUIREMENT\<lparr>network := ''solana:mainnet''\<rparr>"
  note C1 = signing_domain_from_requirement [of MOCK_REQUIREMENT test_platform mockAccount MOCK_RESOURCE]
  have shape: "network MOCK_REQUIREMENT = ''eip155:'' @ ''42220'' \<and> CHR '':'' \<notin> set ''42220''"
    by (simp add: MOCK_REQUIREMENT_def)
  have val: "digits_value 10 ''42220'' = 42220"
    by (simp add: digits_value_def digitVal_def)
  have digits: "''42220'' \<noteq> [] \<and> list_all isDigit ''42220'' \<and> digits_value 10 ''42220'' < 2 ^ 53"
    by (simp add: val isDigit_def)
  from C1 shape digits have num: "parseInt ''42220'' = Num (digits_value 10 ''42220'')" by blast
  from C1 shape have all: "\<forall>a \<in> set ?calls.
      sa_domain a = \<lparr>dom_name = name (extra MOCK_REQUIREMENT),
                      dom_version = version (extra MOCK_REQUIREMENT),
                      dom_chainId = parseInt ''42220'',
                      dom_verifyingContract = asset MOCK_REQUIREMENT\<rparr>"
    by blast
  have "StringToBigInt (amount MOCK_REQUIREMENT) \<noteq> None" using mock_amount by simp
  with C1 shape have "length ?calls = 1" by blast
  then obtain a where a: "?calls = [a]" by (cases ?calls) auto
  with all num val have first: "map sa_domain ?calls =
     [\<lparr>dom_name = ''USD Coin'', dom_version = ''2'', dom_chainId = Num 42220,
       dom_verifyingContract = ''0xcebA9300f2b948710d2653dD7B07f33A8B32118C''\<rparr>]"
    by (simp add: MOCK_REQUIREMENT_def)
  have no_shape: "\<not> (\<exists>sfx. network ?solana = ''eip155:'' @ sfx \<and> CHR '':'' \<notin> set sfx)"
    by simp
  have "fst (buildPaymentHeader test_platform mockAccount ?solana MOCK_RESOURCE) = []"
  proof (rule ccontr)
    assume "fst (buildPaymentHeader test_platform mockAccount ?solana MOCK_RESOURCE) \<noteq> []"
    then obtain b where "b \<in> set (fst (buildPaymentHeader test_platform mockAccount ?solana MOCK_RESOURCE))"
      by (cases "fst (buildPaymentHeader test_platform mockAccount ?solana MOCK_RESOURCE)") auto
    with signing_domain_from_requirement [of ?solana test_platform mockAccount MOCK_RESOURCE]
    have "\<exists>sfx. network ?solana = ''eip155:'' @ sfx \<and> CHR '':'' \<notin> set sfx" by blast
    with no_shape show False by blast
  qed
  with first show ?thesis by blast
qed

section \<open>The nonce of a call\<close>

text \<open>
  C3. The nonce of a call is the \<open>0x\<close>-prefixed hexadecimal print of the 32 bytes that the
  secure random source writes during that call. The print is injective: two calls have the
  same nonce exactly when the random source wrote the same 32 bytes. The nonce that is
  signed and the nonce that is sent are this one; so two calls on the same inputs whose
  random bytes differ sign different nonces.
\<close>

theorem nonce_fresh_per_call:
  fixes P P' :: "'j platform"
  shows "((randomNonce P = randomNonce P') \<longleftrightarrow>
            (map (getRandomValues P) [0..<32] = map (getRandomValues P') [0..<32]))
       \<and> length (map (getRandomValues P) [0..<32]) = 32
       \<and> (\<forall>a \<in> set (fst (buildPaymentHeader P acct req res)).
             msg_nonce (sa_message a) = randomNonce P)
       \<and> (\<forall>h. snd (buildPaymentHeader P acct req res) = Inr h \<longrightarrow>
             (\<exists>env. h = btoa (JSON_stringify P env)
                  \<and> auth_nonce (authorization (env_payload env)) = randomNonce P))
       \<and> (map (getRandomValues P) [0..<32] \<noteq> map (getRandomValues P') [0..<32] \<longrightarrow>
            (\<forall>a \<in> set (fst (buildPaymentHeader P acct req res)).
             \<forall>a' \<in> set (fst (buildPaymentHeader P' acct req res)).
               msg_nonce (sa_message a) \<noteq> msg_nonce (sa_message a')))"
proof -
  have signed: "msg_nonce (sa_message a) = randomNonce Q"
    if "a \<in> set (fst (buildPaymentHeader Q acct req res))" for a and Q :: "'j platform"
    using buildPaymentHeader_calls [OF that] by (auto simp: signing_request_def)
  have sent: "\<exists>env. h = btoa (JSON_stringify P env)
                  \<and> auth_nonce (authorization (env_payload env)) = randomNonce P"
    if "snd (buildPaymentHeader P acct req res) = Inr h" for h
  proof -
    from buildPaymentHeader_returns [OF that] obtain sig
      where "h = btoa (JSON_stringify P (wire_envelope P acct req res sig))" by blast
    moreover have "auth_nonce (authorization (env_payload (wire_envelope P acct req res sig))) = randomNonce P"
      by (simp add: wire_envelope_def)
    ultimately show ?thesis by blast
  qed
  from signed sent show ?thesis
    by (simp add: randomNonce_eq_iff)
qed

theorem nonce_fresh_per_call_witness:
  "map (msg_nonce \<circ> sa_message)
       (fst (buildPaymentHeader test_platform mockAccount MOCK_REQUIREMENT MOCK_RESOURCE)) =
     [randomNonce test_platform]
   \<and> randomNonce (test_platform\<lparr>getRandomValues := (\<lambda>i. of_nat (7 * i + 4))\<rparr>) \<noteq>
     randomNonce test_platform"
proof -
  let ?P = "test_platform"
  let ?P' = "test_platform\<lparr>getRandomValues := (\<lambda>i. of_nat (7 * i + 4))\<rparr>"
  note C3 = nonce_fresh_per_call [of ?P' ?P mockAccount MOCK_REQUIREMENT MOCK_RESOURCE]
  note C3' = nonce_fresh_per_call [of ?P ?P' mockAccount MOCK_REQUIREMENT MOCK_RESOURCE]
  have "getRandomValues ?P' 0 \<noteq> getRandomValues ?P 0"
    by (simp add: test_platform_def)
  then have "map (getRandomValues ?P') [0..<32] \<noteq> map (getRandomValues ?P) [0..<32]"
    by (simp add: upt_rec [of 0])
  with C3 have differ: "randomNonce ?P' \<noteq> randomNonce ?P" by blast
  from C3' have "\<forall>a \<in> set (fst (buildPaymentHeader ?P mockAccount MOCK_REQUIREMENT MOCK_RESOURCE)).
      msg_nonce (sa_message a) = randomNonce ?P" by blast
  then have "map (msg_nonce \<circ> sa_message)
       (fst (buildPaymentHeader ?P mockAccount MOCK_REQUIREMENT MOCK_RESOURCE)) = [randomNonce ?P]"
    by (simp add: mock_build)
  with differ show ?thesis by simp
qed




section \<open>The validity window\<close>

text \<open>
  C6. With \<open>t\<close> the unix time of the call in seconds (the floor of \<open>Date.now() / 1000\<close>), the
  signed message has \<open>validAfter = 0\<close> and \<open>validBefore = t + 3600\<close>, the fixed window of
  \<open>SIGNATURE_VALIDITY_SECONDS\<close>. So \<open>validBefore\<close> is later than the clock reading and
  no more than 3600 seconds later. A call that returns sends the same two numbers as
  decimal strings: \<open>''0''\<close> and the decimal print of the signed \<open>validBefore\<close>.
\<close>

theorem validity_window:
  fixes P :: "'j platform"
  shows "SIGNATURE_VALIDITY_SECONDS = 3600
       \<and> (\<forall>a \<in> set (fst (buildPaymentHeader P acct req res)).
             msg_validAfter (sa_message a) = 0
           \<and> msg_validBefore (sa_message a) = Date_now P div 1000 + 3600)
       \<and> Date_now P div 1000 < Date_now P div 1000 + 3600
       \<and> Date_now P < (Date_now P div 1000 + 3600) * 1000
       \<and> (Date_now P div 1000 + 3600) * 1000 \<le> Date_now P + 3600 * 1000
       \<and> (\<forall>h. snd (buildPaymentHeader P acct req res) = Inr h \<longrightarrow>
             (\<exists>a env. fst (buildPaymentHeader P acct req res) = [a]
                \<and> h = btoa (JSON_stringify P env)
                \<and> auth_validAfter (authorization (env_payload env)) = ''0''
                \<and> auth_validBefore (authorization (env_payload env)) =
                    String (msg_validBefore (sa_message a))
                \<and> isDecimalString (auth_validBefore (authorization (env_payload env)))
                \<and> StringToBigInt (auth_validAfter (authorization (env_payload env))) =
                    Some (msg_validAfter (sa_message a))
                \<and> StringToBigInt (auth_validBefore (authorization (env_payload env))) =
                    Some (msg_validBefore (sa_message a))))"
proof (intro conjI ballI allI impI)
  show "SIGNATURE_VALIDITY_SECONDS = 3600" by (simp add: SIGNATURE_VALIDITY_SECONDS_def)
next
  fix a
  assume "a \<in> set (fst (buildPaymentHeader P acct req res))"
  then obtain c v where a: "a = signing_request P acct req c v"
    using buildPaymentHeader_calls by blast
  show "msg_validAfter (sa_message a) = 0"
    by (simp add: a signing_request_def)
  show "msg_validBefore (sa_message a) = Date_now P div 1000 + 3600"
    by (simp add: a signing_request_def SIGNATURE_VALIDITY_SECONDS_def)
next
  show "Date_now P div 1000 < Date_now P div 1000 + 3600" by simp
next
  show "Date_now P < (Date_now P div 1000 + 3600) * 1000" by arith
next
  show "(Date_now P div 1000 + 3600) * 1000 \<le> Date_now P + 3600 * 1000" by arith
next
  fix h
  assume "snd (buildPaymentHeader P acct req res) = Inr h"
  from buildPaymentHeader_returns [OF this] obtain c v sig
    where calls: "fst (buildPaymentHeader P acct req res) = [signing_request P acct req c v]"
      and h: "h = btoa (JSON_stringify P (wire_envelope P acct req res sig))"
    by blast
  let ?a = "signing_request P acct req c v"
  let ?env = "wire_envelope P acct req res sig"
  have before: "auth_validBefore (authorization (env_payload ?env)) = String (msg_validBefore (sa_message ?a))"
    by (simp add: wire_envelope_def signing_request_def)
  have after: "auth_validAfter (authorization (env_payload ?env)) = ''0''"
    by (simp add: wire_envelope_def)
  have zero: "StringToBigInt ''0'' = Some 0"
    using StringToBigInt_String [of 0] by (simp add: String_def toStringRadix.simps digitChar_def)
  have "fst (buildPaymentHeader P acct req res) = [?a]
      \<and> h = btoa (JSON_stringify P ?env)
      \<and> auth_validAfter (authorization (env_payload ?env)) = ''0''
      \<and> auth_validBefore (authorization (env_payload ?env)) = String (msg_validBefore (sa_message ?a))
      \<and> isDecimalString (auth_validBefore (authorization (env_payload ?env)))
      \<and> StringToBigInt (auth_validAfter (authorization (env_payload ?env))) =
          Some (msg_validAfter (sa_message ?a))
      \<and> StringToBigInt (auth_validBefore (authorization (env_payload ?env))) =
          Some (msg_validBefore (sa_message ?a))"
    unfolding before after using calls h zero
    by (simp add: isDecimalString_String StringToBigInt_String signing_request_def)
  then show "\<exists>a env. fst (buildPaymentHeader P acct req res) = [a]
                \<and> h = btoa (JSON_stringify P env)
                \<and> auth_validAfter (authorization (env_payload env)) = ''0''
                \<and> auth_validBefore (authorization (env_payload env)) =
                    String (msg_validBefore (sa_message a))
                \<and> isDecimalString (auth_validBefore (authorization (env_payload env)))
                \<and> StringToBigInt (auth_validAfter (authorization (env_payload env))) =
                    Some (msg_validAfter (sa_message a))
                \<and> StringToBigInt (auth_validBefore (authorization (env_payload env))) =
                    Some (msg_validBefore (sa_message a))"
    by blast
qed

theorem validity_window_witness:
  "map (\<lambda>a. (msg_validAfter (sa_message a), msg_validBefore (sa_message a)))
       (fst (buildPaymentHeader test_platform mockAccount MOCK_REQUIREMENT MOCK_RESOURCE)) =
     [(0, 1700003600)]
   \<and> (\<exists>env. snd (buildPaymentHeader test_platform mockAccount MOCK_REQUIREMENT MOCK_RESOURCE) =
               Inr (btoa (JSON_stringify test_platform env))
            \<and> auth_validAfter (authorization (env_payload env)) = ''0''
            \<and> auth_validBefore (authorization (env_payload env)) = String 1700003600)"
proof -
  let ?R = "buildPaymentHeader test_platform mockAccount MOCK_REQUIREMENT MOCK_RESOURCE"
  note C6 = validity_window [of test_platform mockAccount MOCK_REQUIREMENT MOCK_RESOURCE]
  from C6 have "\<forall>a \<in> set (fst ?R).
      msg_validAfter (sa_message a) = 0
      \<and> msg_validBefore (sa_message a) = Date_now test_platform div 1000 + 3600"
    by blast
  then have signed: "\<forall>a \<in> set (fst ?R).
      msg_validAfter (sa_message a) = 0 \<and> msg_validBefore (sa_message a) = 1700003600"
    by (simp add: test_platform_def)
  then have first: "map (\<lambda>a. (msg_validAfter (sa_message a), msg_validBefore (sa_message a))) (fst ?R) =
     [(0, 1700003600)]"
    by (simp add: mock_build)
  obtain h where h: "snd ?R = Inr h" by (simp add: mock_build)
  with C6 obtain a env where "fst ?R = [a]" and "h = btoa (JSON_stringify test_platform env)"
    and "auth_validAfter (authorization (env_payload env)) = ''0''"
    and "auth_validBefore (authorization (env_payload env)) = String (msg_validBefore (sa_message a))"
    by blast
  with signed h have "snd ?R = Inr (btoa (JSON_stringify test_platform env))
      \<and> auth_validAfter (authorization (env_payload env)) = ''0''
      \<and> auth_validBefore (authorization (env_payload env)) = String 1700003600"
    by simp
  with first show ?thesis by blast
qed




section \<open>The envelope\<close>

text \<open>
  C4 (amended). A call that returns gives the base64 text of the serialised envelope
  (\<open>atob\<close> gives the JSON text back). The envelope has version 2, the resource and the
  requirement as they were passed in, the signature that the signing capability returned,
  and an authorization whose \<open>from\<close>, \<open>to\<close> and \<open>nonce\<close> are those of the signed message,
  whose \<open>validAfter\<close> and \<open>validBefore\<close> are the decimal strings of the signed numbers,
  and whose \<open>value\<close> is \<open>requirement.amount\<close> as it came: the string whose \<open>BigInt\<close> is
  the signed value, a decimal string when the amount is one. The nonce is \<open>0x\<close> followed by
  64 lower-case hexadecimal digits.
\<close>

theorem envelope_contents:
  fixes P :: "'j platform"
  assumes "snd (buildPaymentHeader P acct req res) = Inr h"
  shows "\<exists>a env.
           fst (buildPaymentHeader P acct req res) = [a]
         \<and> h = btoa (JSON_stringify P env)
         \<and> atob h = Some (JSON_stringify P env)
         \<and> env_x402Version env = 2
         \<and> env_resource env = res
         \<and> env_accepted env = req
         \<and> signTypedData acct a = Inr (signature (env_payload env))
         \<and> auth_from (authorization (env_payload env)) = msg_from (sa_message a)
         \<and> auth_to (authorization (env_payload env)) = msg_to (sa_message a)
         \<and> auth_value (authorization (env_payload env)) = amount req
         \<and> StringToBigInt (auth_value (authorization (env_payload env))) =
             Some (msg_value (sa_message a))
         \<and> (isDecimalString (amount req) \<longrightarrow>
              isDecimalString (auth_value (authorization (env_payload env))))
         \<and> isDecimalString (auth_validAfter (authorization (env_payload env)))
         \<and> StringToBigInt (auth_validAfter (authorization (env_payload env))) =
             Some (msg_validAfter (sa_message a))
         \<and> isDecimalString (auth_validBefore (authorization (env_payload env)))
         \<and> StringToBigInt (auth_validBefore (authorization (env_payload env))) =
             Some (msg_validBefore (sa_message a))
         \<and> auth_nonce (authorization (env_payload env)) = msg_nonce (sa_message a)
         \<and> take 2 (auth_nonce (authorization (env_payload env))) = ''0x''
         \<and> length (drop 2 (auth_nonce (authorization (env_payload env)))) = 64
         \<and> list_all isLowerHexDigit (drop 2 (auth_nonce (authorization (env_payload env))))"
proof -
  from buildPaymentHeader_returns [OF assms] obtain c v sig
    where amount: "StringToBigInt (amount req) = Some v"
      and calls: "fst (buildPaymentHeader P acct req res) = [signing_request P acct req c v]"
      and sig: "signTypedData acct (signing_request P acct req c v) = Inr sig"
      and h: "h = btoa (JSON_stringify P (wire_envelope P acct req res sig))"
    by blast
  let ?a = "signing_request P acct req c v"
  let ?env = "wire_envelope P acct req res sig"
  let ?auth = "authorization (env_payload ?env)"
  have zero: "isDecimalString ''0''" "StringToBigInt ''0'' = Some 0"
    using isDecimalString_String [of 0] StringToBigInt_String [of 0]
    by (simp_all add: String_def toStringRadix.simps digitChar_def)
  have fields: "env_x402Version ?env = 2" "env_resource ?env = res" "env_accepted ?env = req"
    "signature (env_payload ?env) = sig"
    "auth_from ?auth = msg_from (sa_message ?a)" "auth_to ?auth = msg_to (sa_message ?a)"
    "auth_value ?auth = amount req" "msg_value (sa_message ?a) = v"
    "auth_validAfter ?auth = ''0''" "msg_validAfter (sa_message ?a) = 0"
    "auth_validBefore ?auth = String (msg_validBefore (sa_message ?a))"
    "auth_nonce ?auth = randomNonce P" "msg_nonce (sa_message ?a) = randomNonce P"
    by (simp_all add: wire_envelope_def signing_request_def)
  have "fst (buildPaymentHeader P acct req res) = [?a]
         \<and> h = btoa (JSON_stringify P ?env)
         \<and> atob h = Some (JSON_stringify P ?env)
         \<and> env_x402Version ?env = 2
         \<and> env_resource ?env = res
         \<and> env_accepted ?env = req
         \<and> signTypedData acct ?a = Inr (signature (env_payload ?env))
         \<and> auth_from ?auth = msg_from (sa_message ?a)
         \<and> auth_to ?auth = msg_to (sa_message ?a)
         \<and> auth_value ?auth = amount req
         \<and> StringToBigInt (auth_value ?auth) = Some (msg_value (sa_message ?a))
         \<and> (isDecimalString (amount req) \<longrightarrow> isDecimalString (auth_value ?auth))
         \<and> isDecimalString (auth_validAfter ?auth)
         \<and> StringToBigInt (auth_validAfter ?auth) = Some (msg_validAfter (sa_message ?a))
         \<and> isDecimalString (auth_validBefore ?auth)
         \<and> StringToBigInt (auth_validBefore ?auth) = Some (msg_validBefore (sa_message ?a))
         \<and> auth_nonce ?auth = msg_nonce (sa_message ?a)
         \<and> take 2 (auth_nonce ?auth) = ''0x''
         \<and> length (drop 2 (auth_nonce ?auth)) = 64
         \<and> list_all isLowerHexDigit (drop 2 (auth_nonce ?auth))"
    unfolding fields using calls sig h amount zero
    by (simp add: atob_btoa isDecimalString_String StringToBigInt_String randomNonce_format)
  then show ?thesis by blast
qed

theorem envelope_contents_witness:
  "\<exists>env. snd (buildPaymentHeader test_platform mockAccount MOCK_REQUIREMENT MOCK_RESOURCE) =
            Inr (btoa (JSON_stringify test_platform env))
       \<and> env_x402Version env = 2
       \<and> env_resource env = MOCK_RESOURCE
       \<and> env_accepted env = MOCK_REQUIREMENT
       \<and> signature (env_payload env) = ''0xdeadbeef''
       \<and> auth_value (authorization (env_payload env)) = ''1000''
       \<and> isDecimalString (auth_value (authorization (env_payload env)))"
proof -
  let ?R = "buildPaymentHeader test_platform mockAccount MOCK_REQUIREMENT MOCK_RESOURCE"
  obtain h where h: "snd ?R = Inr h" by (simp add: mock_build)
  from envelope_contents [OF h] obtain a env
    where "h = btoa (JSON_stringify test_platform env)"
      and "env_x402Version env = 2" and "env_resource env = MOCK_RESOURCE"
      and "env_accepted env = MOCK_REQUIREMENT"
      and "signTypedData mockAccount a = Inr (signature (env_payload env))"
      and "auth_value (authorization (env_payload env)) = amount MOCK_REQUIREMENT"
      and dec: "isDecimalString (amount MOCK_REQUIREMENT) \<longrightarrow>
              isDecimalString (auth_value (authorization (env_payload env)))"
    by blast
  moreover have "isDecimalString (amount MOCK_REQUIREMENT)"
    by (simp add: MOCK_REQUIREMENT_def isDecimalString_def isDigit_def)
  moreover have "amount MOCK_REQUIREMENT = ''1000''" by (simp add: MOCK_REQUIREMENT_def)
  ultimately have "snd ?R = Inr (btoa (JSON_stringify test_platform env))
       \<and> env_x402Version env = 2
       \<and> env_resource env = MOCK_RESOURCE
       \<and> env_accepted env = MOCK_REQUIREMENT
       \<and> signature (env_payload env) = ''0xdeadbeef''
       \<and> auth_value (authorization (env_payload env)) = ''1000''
       \<and> isDecimalString (auth_value (authorization (env_payload env)))"
    using h mock_signature [of a] by simp
  then show ?thesis by blast
qed

text \<open>
  C4 as stated fails: with the amount \<open>0x10\<close> the call returns, the signed value is 16
  and the \<open>value\<close> that is sent is \<open>0x10\<close>, which is not a decimal string.
\<close>

theorem wire_value_not_decimal_counterexample:
  "buildPaymentHeader test_platform mockAccount (MOCK_REQUIREMENT\<lparr>amount := ''0x10''\<rparr>) MOCK_RESOURCE =
     ([signing_request test_platform mockAccount (MOCK_REQUIREMENT\<lparr>amount := ''0x10''\<rparr>) (Num 42220) 16],
      Inr (btoa (JSON_stringify test_platform
             (wire_envelope test_platform mockAccount (MOCK_REQUIREMENT\<lparr>amount := ''0x10''\<rparr>)
                MOCK_RESOURCE ''0xdeadbeef''))))
   \<and> auth_value (authorization (env_payload
         (wire_envelope test_platform mockAccount (MOCK_REQUIREMENT\<lparr>amount := ''0x10''\<rparr>)
            MOCK_RESOURCE ''0xdeadbeef''))) = ''0x10''
   \<and> \<not> isDecimalString ''0x10''"
proof -
  let ?req = "MOCK_REQUIREMENT\<lparr>amount := ''0x10''\<rparr>"
  have "StringToBigInt (amount ?req) = Some 16" using mock_hex_amount by simp
  with mock_chainId [of "''0x10''"] mock_signature
  have "buildPaymentHeader test_platform mockAccount ?req MOCK_RESOURCE =
     ([signing_request test_platform mockAccount ?req (Num 42220) 16],
      Inr (btoa (JSON_stringify test_platform
             (wire_envelope test_platform mockAccount ?req MOCK_RESOURCE ''0xdeadbeef''))))"
    by (intro buildPaymentHeader_signed) simp_all
  moreover have "\<not> isDecimalString ''0x10''"
    by (simp add: isDecimalString_def isDigit_def)
  ultimately show ?thesis by (simp add: wire_envelope_def)
qed




section \<open>The challenge decoder\<close>

text \<open>
  C5 (amended). When the \<open>payment-required\<close> header is absent or empty, decoding fails
  with the missing-header error. When it is a non-empty string that \<open>atob\<close> rejects, or
  whose decoded text \<open>JSON.parse\<close> rejects, decoding fails with the failed-to-decode
  error. When it is a non-empty string whose decoded text parses, decoding returns what
  the parser returns, whatever it holds. So the base64 print of any non-empty text that
  parses to a challenge decodes to that challenge.
\<close>

theorem decodePaymentRequired_cases:
  fixes P :: "'j platform"
  shows "(res_headers response ''payment-required'' = None
            \<or> res_headers response ''payment-required'' = Some [] \<longrightarrow>
          decodePaymentRequired P response =
            Inl (Thrown (PaymentRequiredError ''402 response missing PAYMENT-REQUIRED header'' Undefined)))
       \<and> (\<forall>header. res_headers response ''payment-required'' = Some header \<and> header \<noteq> []
             \<and> (atob header = None \<or> (\<exists>text. atob header = Some text \<and> JSON_parse P text = None)) \<longrightarrow>
          decodePaymentRequired P response =
            Inl (Thrown (PaymentRequiredError ''Failed to decode PAYMENT-REQUIRED header'' Undefined)))
       \<and> (\<forall>header text challenge.
             res_headers response ''payment-required'' = Some header \<and> header \<noteq> []
             \<and> atob header = Some text \<and> JSON_parse P text = Some challenge \<longrightarrow>
          decodePaymentRequired P response = Inr challenge)
       \<and> (\<forall>text challenge.
             text \<noteq> [] \<and> JSON_parse P text = Some challenge
             \<and> res_headers response ''payment-required'' = Some (btoa text) \<longrightarrow>
          decodePaymentRequired P response = Inr challenge)"
proof -
  let ?key = "''payment-required''"
  have missing: "decodePaymentRequired P response =
      Inl (Thrown (PaymentRequiredError ''402 response missing PAYMENT-REQUIRED header'' Undefined))"
    if "res_headers response ?key = None \<or> res_headers response ?key = Some []"
    using that by (auto simp: decodePaymentRequired_def)
  have malformed: "decodePaymentRequired P response =
      Inl (Thrown (PaymentRequiredError ''Failed to decode PAYMENT-REQUIRED header'' Undefined))"
    if "res_headers response ?key = Some header \<and> header \<noteq> []
        \<and> (atob header = None \<or> (\<exists>body_text. atob header = Some body_text \<and> JSON_parse P body_text = None))"
    for header
    using that by (auto simp: decodePaymentRequired_def)
  have decoded: "decodePaymentRequired P response = Inr challenge"
    if "res_headers response ?key = Some header \<and> header \<noteq> []
        \<and> atob header = Some body_text \<and> JSON_parse P body_text = Some challenge"
    for header body_text challenge
    using that by (simp add: decodePaymentRequired_def)
  have roundtrip: "decodePaymentRequired P response = Inr challenge"
    if a: "body_text \<noteq> [] \<and> JSON_parse P body_text = Some challenge
        \<and> res_headers response ?key = Some (btoa body_text)"
    for body_text challenge
  proof -
    from a have "btoa body_text \<noteq> []" by (simp add: btoa_empty_iff)
    with a show ?thesis by (simp add: decodePaymentRequired_def atob_btoa)
  qed
  from missing malformed decoded roundtrip show ?thesis by blast
qed

lemma print_body_not_empty: "print_body b \<noteq> []"
  by (simp add: print_body_def object_def)

lemma atob_invalid: "atob ''!!!invalid!!!'' = None"
  by (simp add: atob_def strip_padding_def isAsciiWhitespace_def)

theorem decodePaymentRequired_cases_witness:
  "decodePaymentRequired test_platform (make_response 402 None) =
     Inl (Thrown (PaymentRequiredError ''402 response missing PAYMENT-REQUIRED header'' Undefined))
   \<and> decodePaymentRequired test_platform (make_response 402 (Some ''!!!invalid!!!'')) =
     Inl (Thrown (PaymentRequiredError ''Failed to decode PAYMENT-REQUIRED header'' Undefined))
   \<and> decodePaymentRequired test_platform
        (make_response 402 (Some (btoa (print_body MOCK_PAYMENT_REQUIRED_BODY)))) =
     Inr MOCK_PAYMENT_REQUIRED_BODY"
proof -
  have parse: "JSON_parse test_platform (print_body MOCK_PAYMENT_REQUIRED_BODY) =
      Some MOCK_PAYMENT_REQUIRED_BODY"
    by (simp add: test_platform_def)
  have hdr: "res_headers (make_response 402 x) ''payment-required'' = x" for x
    by (simp add: make_response_def)
  have "decodePaymentRequired test_platform (make_response 402 None) =
     Inl (Thrown (PaymentRequiredError ''402 response missing PAYMENT-REQUIRED header'' Undefined))"
    using decodePaymentRequired_cases [of "make_response 402 None" test_platform] hdr [of None]
    by blast
  moreover have "decodePaymentRequired test_platform (make_response 402 (Some ''!!!invalid!!!'')) =
     Inl (Thrown (PaymentRequiredError ''Failed to decode PAYMENT-REQUIRED header'' Undefined))"
    using decodePaymentRequired_cases [of "make_response 402 (Some ''!!!invalid!!!'')" test_platform]
      hdr [of "Some ''!!!invalid!!!''"] atob_invalid
    by (metis list.distinct(1))
  moreover have "decodePaymentRequired test_platform
        (make_response 402 (Some (btoa (print_body MOCK_PAYMENT_REQUIRED_BODY)))) =
     Inr MOCK_PAYMENT_REQUIRED_BODY"
    using decodePaymentRequired_cases
        [of "make_response 402 (Some (btoa (print_body MOCK_PAYMENT_REQUIRED_BODY)))" test_platform]
      hdr [of "Some (btoa (print_body MOCK_PAYMENT_REQUIRED_BODY))"] parse
      print_body_not_empty [of MOCK_PAYMENT_REQUIRED_BODY]
    by blast
  ultimately show ?thesis by blast
qed

text \<open>
  C5 as stated fails: an empty header value is valid base64 of the empty text, which is not
  valid JSON, and yet decoding fails with the missing-header error, not with the
  failed-to-decode error.
\<close>

theorem empty_header_counterexample:
  "res_headers (make_response 402 (Some [])) ''payment-required'' = Some []
   \<and> atob [] = Some []
   \<and> JSON_parse test_platform [] = None
   \<and> decodePaymentRequired test_platform (make_response 402 (Some [])) =
     Inl (Thrown (PaymentRequiredError ''402 response missing PAYMENT-REQUIRED header'' Undefined))
   \<and> decodePaymentRequired test_platform (make_response 402 (Some [])) \<noteq>
     Inl (Thrown (PaymentRequiredError ''Failed to decode PAYMENT-REQUIRED header'' Undefined))"
proof -
  have "atob [] = Some []" by (simp add: atob_def strip_padding_def)
  moreover have "JSON_parse test_platform [] = None"
    using print_body_not_empty [of MOCK_PAYMENT_REQUIRED_BODY] by (auto simp: test_platform_def)
  moreover have "decodePaymentRequired test_platform (make_response 402 (Some [])) =
     Inl (Thrown (PaymentRequiredError ''402 response missing PAYMENT-REQUIRED header'' Undefined))"
    by (simp add: decodePaymentRequired_def make_response_def)
  ultimately show ?thesis
    by (simp add: make_response_def PaymentRequiredError_def DenScopeError_def)
qed




section \<open>The dispatcher\<close>

lemma request_outcome:
  fixes P :: "'j platform"
  shows "request P this path =
     (case fetch P [] (first_request this path) of
        Inl e \<Rightarrow> ([Fetched (first_request this path)], Inl e)
      | Inr response \<Rightarrow>
          if res_status response = 402 \<and> isX402Config (ds_config this) then
            (case decodePaymentRequired P response of
               Inl e \<Rightarrow> ([Fetched (first_request this path)], Inl e)
             | Inr challenge \<Rightarrow>
                 if accepts challenge = [] then
                   ([Fetched (first_request this path)],
                    Inl (Thrown (PaymentRequiredError ''No accepted payment methods''
                                   (Challenge challenge))))
                 else
                   (case snd (buildPaymentHeader P (the (account (ds_config this)))
                                (hd (accepts challenge)) (resource challenge)) of
                      Inl e \<Rightarrow>
                        (Fetched (first_request this path)
                           # map Signed (fst (buildPaymentHeader P (the (account (ds_config this)))
                                                (hd (accepts challenge)) (resource challenge))),
                         Inl e)
                    | Inr h \<Rightarrow>
                        (Fetched (first_request this path)
                           # map Signed (fst (buildPaymentHeader P (the (account (ds_config this)))
                                                (hd (accepts challenge)) (resource challenge)))
                           @ [Fetched (retry_request this path h)],
                         (case fetch P [first_request this path] (retry_request this path h) of
                            Inl e \<Rightarrow> Inl e
                          | Inr retryResponse \<Rightarrow> handleResponse retryResponse))))
          else ([Fetched (first_request this path)], handleResponse response))"
  by (simp add: request_def first_request_def retry_request_def Let_def
      split: sum.splits prod.splits)

lemma fetches_map_Signed [simp]: "fetches (map Signed calls) = []"
  by (induction calls) simp_all

lemma fetches_append [simp]: "fetches (es @ es') = fetches es @ fetches es'"
  by (induction es rule: fetches.induct) simp_all

lemma signings_map_Signed [simp]: "signings (map Signed calls) = calls"
  by (induction calls) simp_all

lemma signings_append [simp]: "signings (es @ es') = signings es @ signings es'"
  by (induction es rule: signings.induct) simp_all

lemma handleResponse_402:
  "res_status response = 402 \<Longrightarrow>
     \<exists>b. handleResponse response = Inl (Thrown (PaymentRequiredError ''Payment required'' b))"
  by (auto simp: handleResponse_def ok_def Let_def)

lemma request_retry:
  fixes P :: "'j platform"
  assumes "header_built P this path h"
  shows "fetches (fst (request P this path)) = [first_request this path, retry_request this path h]"
    and "snd (request P this path) =
          (case fetch P [first_request this path] (retry_request this path h) of
             Inl e \<Rightarrow> Inl e | Inr retryResponse \<Rightarrow> handleResponse retryResponse)"
  using assms unfolding header_built_def request_outcome by auto

lemma request_no_retry:
  fixes P :: "'j platform"
  assumes "\<not> (\<exists>h. header_built P this path h)"
  shows "fetches (fst (request P this path)) = [first_request this path]"
  using assms unfolding header_built_def request_outcome
  by (auto split: sum.splits)




subsection \<open>The fixtures at the dispatcher\<close>

lemma print_requirement_starts: "\<exists>rest. print_requirement r = CHR ''{'' # rest"
  by (simp add: print_requirement_def object_def)

lemma print_bodies_differ: "print_body EMPTY_CHALLENGE \<noteq> print_body MOCK_PAYMENT_REQUIRED_BODY"
proof -
  obtain rest where "print_requirement MOCK_REQUIREMENT = CHR ''{'' # rest"
    using print_requirement_starts by blast
  then show ?thesis
    by (simp add: print_body_def EMPTY_CHALLENGE_def MOCK_PAYMENT_REQUIRED_BODY_def
        object_def member_def quote_def array_def)
qed

lemma paywall_parse:
  "JSON_parse (paywall_platform header) (print_body MOCK_PAYMENT_REQUIRED_BODY) =
     Some MOCK_PAYMENT_REQUIRED_BODY"
  "JSON_parse (paywall_platform header) (print_body EMPTY_CHALLENGE) = Some EMPTY_CHALLENGE"
  using print_bodies_differ by (simp_all add: paywall_platform_def)

lemma paywall_fetch:
  "fetch (paywall_platform header) [] r = Inr (make_response 402 header)"
  "fetch (paywall_platform header) [q] r = Inr (make_response 200 None)"
  by (simp_all add: paywall_platform_def)

lemma paywall_decode:
  "decodePaymentRequired (paywall_platform header)
      (make_response 402 (Some (btoa (print_body MOCK_PAYMENT_REQUIRED_BODY)))) =
     Inr MOCK_PAYMENT_REQUIRED_BODY"
  "decodePaymentRequired (paywall_platform header)
      (make_response 402 (Some (btoa (print_body EMPTY_CHALLENGE)))) = Inr EMPTY_CHALLENGE"
  "decodePaymentRequired (paywall_platform header) (make_response 402 None) =
     Inl (Thrown MissingChallenge)"
  using paywall_parse [of header] print_body_not_empty
  by (simp_all add: decodePaymentRequired_def make_response_def atob_btoa btoa_empty_iff
      MissingChallenge_def)

lemma clients:
  "isX402Config (ds_config x402_client)" "account (ds_config x402_client) = Some mockAccount"
  "\<not> isX402Config (ds_config apiKey_client)"
  by (simp_all add: x402_client_def apiKey_client_def new_DenScope_def isX402Config_def Let_def)

lemma paywall_header_built:
  "header_built (paywall_platform (Some (btoa (print_body MOCK_PAYMENT_REQUIRED_BODY)))) x402_client path
     (btoa (JSON_stringify (paywall_platform (Some (btoa (print_body MOCK_PAYMENT_REQUIRED_BODY))))
        (wire_envelope (paywall_platform (Some (btoa (print_body MOCK_PAYMENT_REQUIRED_BODY))))
           mockAccount MOCK_REQUIREMENT MOCK_RESOURCE ''0xdeadbeef'')))"
proof -
  let ?hdr = "Some (btoa (print_body MOCK_PAYMENT_REQUIRED_BODY))"
  let ?P = "paywall_platform ?hdr"
  have "fetch ?P [] (first_request x402_client path) = Inr (make_response 402 ?hdr)"
    by (rule paywall_fetch)
  moreover have "res_status (make_response 402 ?hdr) = 402" by (simp add: make_response_def)
  moreover have "decodePaymentRequired ?P (make_response 402 ?hdr) = Inr MOCK_PAYMENT_REQUIRED_BODY"
    by (rule paywall_decode)
  moreover have "accepts MOCK_PAYMENT_REQUIRED_BODY \<noteq> []"
    "hd (accepts MOCK_PAYMENT_REQUIRED_BODY) = MOCK_REQUIREMENT"
    "resource MOCK_PAYMENT_REQUIRED_BODY = MOCK_RESOURCE"
    by (simp_all add: MOCK_PAYMENT_REQUIRED_BODY_def)
  ultimately show ?thesis
    unfolding header_built_def using clients(1,2) by (auto simp: mock_build)
qed




section \<open>One retry, at most\<close>

text \<open>
  C2 (amended). A logical call makes one transport call or two. The second one, the
  retry, is made exactly when the header gets built: the first response has status 402,
  a signing account is configured, the challenge decodes and accepts something, and
  \<open>buildPaymentHeader\<close> returns. The retry goes to the same URL and carries the
  \<open>X-PAYMENT\<close> header and nothing else. Its response is handed to \<open>handleResponse\<close>
  whatever its status; a second 402 gives the payment-required error and no further
  request. With no signing account, a 402 gives one transport call, no signing, and the
  payment-required error.
\<close>

theorem single_retry:
  fixes P :: "'j platform"
  shows "(fetches (fst (request P this path)) = [first_request this path]
          \<or> (\<exists>h. fetches (fst (request P this path)) =
                    [first_request this path, retry_request this path h]))
       \<and> ((\<exists>r. fetches (fst (request P this path)) = [first_request this path, r])
            \<longleftrightarrow> (\<exists>h. header_built P this path h))
       \<and> ((\<exists>r. fetches (fst (request P this path)) = [first_request this path, r]) \<longrightarrow>
            (\<exists>response. fetch P [] (first_request this path) = Inr response
                \<and> res_status response = 402 \<and> isX402Config (ds_config this)))
       \<and> (\<forall>h. header_built P this path h \<longrightarrow>
              fetches (fst (request P this path)) =
                [first_request this path, retry_request this path h]
            \<and> req_url (retry_request this path h) = req_url (first_request this path)
            \<and> req_headers (retry_request this path h) = [(''X-PAYMENT'', h)]
            \<and> (\<forall>retryResponse.
                  fetch P [first_request this path] (retry_request this path h) = Inr retryResponse \<longrightarrow>
                  snd (request P this path) = handleResponse retryResponse
                  \<and> (res_status retryResponse = 402 \<longrightarrow>
                       (\<exists>b. snd (request P this path) =
                              Inl (Thrown (PaymentRequiredError ''Payment required'' b))))))
       \<and> (\<forall>response. fetch P [] (first_request this path) = Inr response
              \<and> res_status response = 402 \<and> \<not> isX402Config (ds_config this) \<longrightarrow>
              fst (request P this path) = [Fetched (first_request this path)]
            \<and> (\<exists>b. snd (request P this path) =
                     Inl (Thrown (PaymentRequiredError ''Payment required'' b))))"
proof -
  let ?first = "first_request this path"
  let ?sent = "fetches (fst (request P this path))"
  have retry_iff: "(\<exists>r. ?sent = [?first, r]) \<longleftrightarrow> (\<exists>h. header_built P this path h)"
  proof
    assume "\<exists>r. ?sent = [?first, r]"
    then have "?sent \<noteq> [?first]" by auto
    then show "\<exists>h. header_built P this path h"
      using request_no_retry [of P this path] by blast
  next
    assume "\<exists>h. header_built P this path h"
    then show "\<exists>r. ?sent = [?first, r]"
      using request_retry(1) [of P this path] by blast
  qed
  have one_or_two: "?sent = [?first] \<or> (\<exists>h. ?sent = [?first, retry_request this path h])"
    using request_no_retry [of P this path] request_retry(1) [of P this path] by blast
  have only_if: "\<exists>response. fetch P [] ?first = Inr response
                \<and> res_status response = 402 \<and> isX402Config (ds_config this)"
    if "\<exists>r. ?sent = [?first, r]"
    using that retry_iff unfolding header_built_def by blast
  have retried: "?sent = [?first, retry_request this path h]
            \<and> req_url (retry_request this path h) = req_url ?first
            \<and> req_headers (retry_request this path h) = [(''X-PAYMENT'', h)]
            \<and> (\<forall>retryResponse.
                  fetch P [?first] (retry_request this path h) = Inr retryResponse \<longrightarrow>
                  snd (request P this path) = handleResponse retryResponse
                  \<and> (res_status retryResponse = 402 \<longrightarrow>
                       (\<exists>b. snd (request P this path) =
                              Inl (Thrown (PaymentRequiredError ''Payment required'' b)))))"
    if built: "header_built P this path h" for h
  proof -
    have "snd (request P this path) = handleResponse retryResponse
          \<and> (res_status retryResponse = 402 \<longrightarrow>
               (\<exists>b. snd (request P this path) =
                      Inl (Thrown (PaymentRequiredError ''Payment required'' b))))"
      if "fetch P [?first] (retry_request this path h) = Inr retryResponse" for retryResponse
      using request_retry(2) [OF built] that handleResponse_402 [of retryResponse] by simp
    moreover have "req_url (retry_request this path h) = req_url ?first"
      "req_headers (retry_request this path h) = [(''X-PAYMENT'', h)]"
      by (simp_all add: retry_request_def first_request_def)
    ultimately show ?thesis
      using request_retry(1) [OF built] by blast
  qed
  have no_signer: "fst (request P this path) = [Fetched ?first]
            \<and> (\<exists>b. snd (request P this path) =
                     Inl (Thrown (PaymentRequiredError ''Payment required'' b)))"
    if "fetch P [] ?first = Inr response \<and> res_status response = 402
        \<and> \<not> isX402Config (ds_config this)" for response
    using that handleResponse_402 [of response] unfolding request_outcome by auto
  from one_or_two retry_iff only_if retried no_signer show ?thesis by blast
qed

theorem single_retry_witness:
  "(\<exists>h. fetches (fst (request (paywall_platform (Some (btoa (print_body MOCK_PAYMENT_REQUIRED_BODY))))
                          x402_client ''/agent/42220/5/score'')) =
          [first_request x402_client ''/agent/42220/5/score'',
           retry_request x402_client ''/agent/42220/5/score'' h])
   \<and> snd (request (paywall_platform (Some (btoa (print_body MOCK_PAYMENT_REQUIRED_BODY))))
              x402_client ''/agent/42220/5/score'') = Inr ''body''
   \<and> fst (request (paywall_platform None) apiKey_client ''/agent/42220/5/score'') =
        [Fetched (first_request apiKey_client ''/agent/42220/5/score'')]
   \<and> (\<exists>b. snd (request (paywall_platform None) apiKey_client ''/agent/42220/5/score'') =
            Inl (Thrown (PaymentRequiredError ''Payment required'' b)))"
proof -
  let ?hdr = "Some (btoa (print_body MOCK_PAYMENT_REQUIRED_BODY))"
  let ?P = "paywall_platform ?hdr"
  let ?path = "''/agent/42220/5/score''"
  note built = paywall_header_built [of ?path]
  note C2 = single_retry [of ?P x402_client ?path]
  from built obtain h where h: "header_built ?P x402_client ?path h" by blast
  with C2 have sent: "fetches (fst (request ?P x402_client ?path)) =
      [first_request x402_client ?path, retry_request x402_client ?path h]" by blast
  have "fetch ?P [first_request x402_client ?path] (retry_request x402_client ?path h) =
      Inr (make_response 200 None)"
    by (rule paywall_fetch)
  with C2 h have "snd (request ?P x402_client ?path) = handleResponse (make_response 200 None)"
    by blast
  then have result: "snd (request ?P x402_client ?path) = Inr ''body''"
    by (simp add: handleResponse_def ok_def make_response_def)
  note C2' = single_retry [of "paywall_platform None" apiKey_client ?path]
  have "fetch (paywall_platform None) [] (first_request apiKey_client ?path) =
        Inr (make_response 402 None)
      \<and> res_status (make_response 402 None) = 402 \<and> \<not> isX402Config (ds_config apiKey_client)"
    using clients(3) by (simp add: paywall_fetch make_response_def)
  with C2' have "fst (request (paywall_platform None) apiKey_client ?path) =
        [Fetched (first_request apiKey_client ?path)]
      \<and> (\<exists>b. snd (request (paywall_platform None) apiKey_client ?path) =
            Inl (Thrown (PaymentRequiredError ''Payment required'' b)))"
    by blast
  with sent result show ?thesis by blast
qed

text \<open>
  C2 as stated fails: a 402 without the challenge header, with a signing account
  configured, gives one transport call and no retry.
\<close>

theorem no_retry_without_challenge_counterexample:
  "fetch (paywall_platform None) [] (first_request x402_client ''/agent/42220/5/score'') =
     Inr (make_response 402 None)
   \<and> res_status (make_response 402 None) = 402
   \<and> isX402Config (ds_config x402_client)
   \<and> request (paywall_platform None) x402_client ''/agent/42220/5/score'' =
       ([Fetched (first_request x402_client ''/agent/42220/5/score'')],
        Inl (Thrown MissingChallenge))"
proof -
  have st: "res_status (make_response 402 None) = 402" by (simp add: make_response_def)
  show ?thesis
    unfolding request_outcome by (simp add: paywall_fetch paywall_decode clients st)
qed




section \<open>Nothing accepted\<close>

text \<open>
  C8. When the first response has status 402, a signing account is configured, and the
  decoded challenge accepts nothing, the call fails with the no-accepted-payment-method
  error after that one transport call: no retry is made and the signing capability is
  not called.
\<close>

theorem no_accepted_payment_method:
  fixes P :: "'j platform"
  assumes "fetch P [] (first_request this path) = Inr response"
    and "res_status response = 402"
    and "isX402Config (ds_config this)"
    and "decodePaymentRequired P response = Inr challenge"
    and "accepts challenge = []"
  shows "request P this path =
           ([Fetched (first_request this path)],
            Inl (Thrown (PaymentRequiredError ''No accepted payment methods'' (Challenge challenge))))
       \<and> fetches (fst (request P this path)) = [first_request this path]
       \<and> signings (fst (request P this path)) = []"
proof -
  have payment_path: "res_status response = 402 \<and> isX402Config (ds_config this)"
    using assms(2,3) by simp
  have "request P this path =
      ([Fetched (first_request this path)],
       Inl (Thrown (PaymentRequiredError ''No accepted payment methods'' (Challenge challenge))))"
    unfolding request_outcome using assms(1,4,5) payment_path by simp
  then show ?thesis by simp
qed

theorem no_accepted_payment_method_witness:
  "request (paywall_platform (Some (btoa (print_body EMPTY_CHALLENGE)))) x402_client
       ''/agent/42220/5/score'' =
     ([Fetched (first_request x402_client ''/agent/42220/5/score'')],
      Inl (Thrown (PaymentRequiredError ''No accepted payment methods'' (Challenge EMPTY_CHALLENGE))))"
proof -
  let ?hdr = "Some (btoa (print_body EMPTY_CHALLENGE))"
  let ?P = "paywall_platform ?hdr"
  let ?path = "''/agent/42220/5/score''"
  have "fetch ?P [] (first_request x402_client ?path) = Inr (make_response 402 ?hdr)"
    by (rule paywall_fetch)
  moreover have "res_status (make_response 402 ?hdr) = 402" by (simp add: make_response_def)
  moreover have "isX402Config (ds_config x402_client)" by (rule clients)
  moreover have "decodePaymentRequired ?P (make_response 402 ?hdr) = Inr EMPTY_CHALLENGE"
    by (rule paywall_decode)
  moreover have "accepts EMPTY_CHALLENGE = []" by (simp add: EMPTY_CHALLENGE_def)
  ultimately show ?thesis
    using no_accepted_payment_method [of ?P x402_client ?path "make_response 402 ?hdr" EMPTY_CHALLENGE]
    by blast
qed

section \<open>How the four failures reach the caller\<close>

text \<open>
  C9 (amended). On the payment path (first response 402, signing account configured) each
  of the four failures ends the call after the one transport call, with no retry, and
  reaches the caller as the error that was thrown: missing challenge, malformed
  challenge, nothing accepted, unsupported network. All four are \<open>PaymentRequiredError\<close>
  objects with status 402. Their messages are pairwise different; the body is absent in
  three of them and is the decoded challenge in the fourth. So the message is what tells
  the first three apart.
\<close>

theorem payment_failures_surface:
  fixes P :: "'j platform"
  assumes "fetch P [] (first_request this path) = Inr response"
    and "res_status response = 402"
    and "isX402Config (ds_config this)"
  shows "(res_headers response ''payment-required'' = None \<longrightarrow>
            request P this path = ([Fetched (first_request this path)], Inl (Thrown MissingChallenge)))
       \<and> (\<forall>header. res_headers response ''payment-required'' = Some header \<and> header \<noteq> []
              \<and> (atob header = None \<or> (\<exists>body_text. atob header = Some body_text
                                             \<and> JSON_parse P body_text = None)) \<longrightarrow>
            request P this path = ([Fetched (first_request this path)], Inl (Thrown MalformedChallenge)))
       \<and> (\<forall>challenge. decodePaymentRequired P response = Inr challenge
              \<and> accepts challenge = [] \<longrightarrow>
            request P this path =
              ([Fetched (first_request this path)], Inl (Thrown (NoAcceptedPaymentMethod challenge))))
       \<and> (\<forall>challenge. decodePaymentRequired P response = Inr challenge
              \<and> accepts challenge \<noteq> []
              \<and> \<not> (\<exists>sfx. network (hd (accepts challenge)) = ''eip155:'' @ sfx \<and> CHR '':'' \<notin> set sfx) \<longrightarrow>
            request P this path =
              ([Fetched (first_request this path)],
               Inl (Thrown (UnsupportedNetwork (network (hd (accepts challenge)))))))
       \<and> (\<forall>e \<in> {MissingChallenge, MalformedChallenge, UnsupportedNetwork net,
                   NoAcceptedPaymentMethod c :: 'j DenScopeErr}.
              err_name e = ''PaymentRequiredError'' \<and> status e = 402)
       \<and> distinct [message (MissingChallenge :: 'j DenScopeErr),
                    message (MalformedChallenge :: 'j DenScopeErr),
                    message (UnsupportedNetwork net :: 'j DenScopeErr),
                    message (NoAcceptedPaymentMethod c :: 'j DenScopeErr)]
       \<and> body (MissingChallenge :: 'j DenScopeErr) = Undefined
       \<and> body (MalformedChallenge :: 'j DenScopeErr) = Undefined
       \<and> body (UnsupportedNetwork net :: 'j DenScopeErr) = Undefined
       \<and> body (NoAcceptedPaymentMethod c :: 'j DenScopeErr) = Challenge c"
proof -
  let ?first = "first_request this path"
  have thrown: "request P this path = ([Fetched ?first], Inl e)"
    if "decodePaymentRequired P response = Inl e" for e
    unfolding request_outcome using assms that by simp
  have missing: "request P this path = ([Fetched ?first], Inl (Thrown MissingChallenge))"
    if "res_headers response ''payment-required'' = None"
    using that thrown by (auto simp: decodePaymentRequired_def MissingChallenge_def)
  have malformed: "request P this path = ([Fetched ?first], Inl (Thrown MalformedChallenge))"
    if "res_headers response ''payment-required'' = Some header \<and> header \<noteq> []
        \<and> (atob header = None \<or> (\<exists>body_text. atob header = Some body_text
                                       \<and> JSON_parse P body_text = None))" for header
    using that thrown by (auto simp: decodePaymentRequired_def MalformedChallenge_def)
  have none_accepted: "request P this path = ([Fetched ?first], Inl (Thrown (NoAcceptedPaymentMethod challenge)))"
    if "decodePaymentRequired P response = Inr challenge \<and> accepts challenge = []" for challenge
    unfolding request_outcome NoAcceptedPaymentMethod_def using assms that by simp
  have unsupported: "request P this path =
      ([Fetched ?first], Inl (Thrown (UnsupportedNetwork (network (hd (accepts challenge))))))"
    if a: "decodePaymentRequired P response = Inr challenge \<and> accepts challenge \<noteq> []
        \<and> \<not> (\<exists>sfx. network (hd (accepts challenge)) = ''eip155:'' @ sfx \<and> CHR '':'' \<notin> set sfx)"
    for challenge
  proof -
    from a have "parseChainId (network (hd (accepts challenge))) =
        (Inl (Thrown (UnsupportedNetwork (network (hd (accepts challenge))))) :: 'j thrown + jsnum)"
      unfolding UnsupportedNetwork_def by (intro parseChainId_rejects) blast
    then have "buildPaymentHeader P (the (account (ds_config this))) (hd (accepts challenge))
        (resource challenge) = ([], Inl (Thrown (UnsupportedNetwork (network (hd (accepts challenge))))))"
      by (rule buildPaymentHeader_rejected)
    then show ?thesis
      unfolding request_outcome using assms a by simp
  qed
  have kinds: "\<forall>e \<in> {MissingChallenge, MalformedChallenge, UnsupportedNetwork net,
                   NoAcceptedPaymentMethod c :: 'j DenScopeErr}.
              err_name e = ''PaymentRequiredError'' \<and> status e = 402"
    by (simp add: MissingChallenge_def MalformedChallenge_def UnsupportedNetwork_def
        NoAcceptedPaymentMethod_def PaymentRequiredError_def DenScopeError_def)
  have messages: "distinct [message (MissingChallenge :: 'j DenScopeErr),
                    message (MalformedChallenge :: 'j DenScopeErr),
                    message (UnsupportedNetwork net :: 'j DenScopeErr),
                    message (NoAcceptedPaymentMethod c :: 'j DenScopeErr)]"
    by (simp add: MissingChallenge_def MalformedChallenge_def UnsupportedNetwork_def
        NoAcceptedPaymentMethod_def PaymentRequiredError_def DenScopeError_def)
  have bodies: "body (MissingChallenge :: 'j DenScopeErr) = Undefined"
    "body (MalformedChallenge :: 'j DenScopeErr) = Undefined"
    "body (UnsupportedNetwork net :: 'j DenScopeErr) = Undefined"
    "body (NoAcceptedPaymentMethod c :: 'j DenScopeErr) = Challenge c"
    by (simp_all add: MissingChallenge_def MalformedChallenge_def UnsupportedNetwork_def
        NoAcceptedPaymentMethod_def PaymentRequiredError_def DenScopeError_def)
  from missing malformed none_accepted unsupported kinds messages bodies show ?thesis by blast
qed

theorem payment_failures_surface_witness:
  "request (paywall_platform None) x402_client ''/agent/42220/5/score'' =
     ([Fetched (first_request x402_client ''/agent/42220/5/score'')], Inl (Thrown MissingChallenge))
   \<and> request (paywall_platform (Some ''!!!invalid!!!'')) x402_client ''/agent/42220/5/score'' =
     ([Fetched (first_request x402_client ''/agent/42220/5/score'')], Inl (Thrown MalformedChallenge))
   \<and> request (paywall_platform (Some (btoa (print_body EMPTY_CHALLENGE)))) x402_client
        ''/agent/42220/5/score'' =
     ([Fetched (first_request x402_client ''/agent/42220/5/score'')],
      Inl (Thrown (NoAcceptedPaymentMethod EMPTY_CHALLENGE)))"
proof -
  let ?path = "''/agent/42220/5/score''"
  have pre: "fetch (paywall_platform hdr) [] (first_request x402_client ?path) =
      Inr (make_response 402 hdr)"
    "res_status (make_response 402 hdr) = 402" "isX402Config (ds_config x402_client)"
    "res_headers (make_response 402 hdr) ''payment-required'' = hdr" for hdr
    by (simp_all add: paywall_fetch clients make_response_def)
  note C9 = payment_failures_surface [OF pre(1) pre(2) pre(3)]
  have "request (paywall_platform None) x402_client ?path =
     ([Fetched (first_request x402_client ?path)], Inl (Thrown MissingChallenge))"
    using C9 [of None] pre(4) [of None] by blast
  moreover have "request (paywall_platform (Some ''!!!invalid!!!'')) x402_client ?path =
     ([Fetched (first_request x402_client ?path)], Inl (Thrown MalformedChallenge))"
    using C9 [of "Some ''!!!invalid!!!''"] pre(4) [of "Some ''!!!invalid!!!''"] atob_invalid
    by (metis list.distinct(1))
  moreover have "request (paywall_platform (Some (btoa (print_body EMPTY_CHALLENGE)))) x402_client ?path =
     ([Fetched (first_request x402_client ?path)],
      Inl (Thrown (NoAcceptedPaymentMethod EMPTY_CHALLENGE)))"
    using C9 [of "Some (btoa (print_body EMPTY_CHALLENGE))"]
      paywall_decode(2) [of "Some (btoa (print_body EMPTY_CHALLENGE))"]
    by (simp add: EMPTY_CHALLENGE_def)
  ultimately show ?thesis by blast
qed

text \<open>
  C9 as stated fails: the errors for an absent header and for an undecodable header are
  different values that agree in class name, status and body; only their messages differ.
\<close>

theorem errors_differ_in_message_only_counterexample:
  "decodePaymentRequired test_platform (make_response 402 None) = Inl (Thrown MissingChallenge)
   \<and> decodePaymentRequired test_platform (make_response 402 (Some ''!!!invalid!!!'')) =
       Inl (Thrown MalformedChallenge)
   \<and> (MissingChallenge :: string DenScopeErr) \<noteq> MalformedChallenge
   \<and> err_name (MissingChallenge :: string DenScopeErr) = err_name (MalformedChallenge :: string DenScopeErr)
   \<and> status (MissingChallenge :: string DenScopeErr) = status (MalformedChallenge :: string DenScopeErr)
   \<and> body (MissingChallenge :: string DenScopeErr) = body (MalformedChallenge :: string DenScopeErr)
   \<and> (MissingChallenge :: string DenScopeErr)\<lparr>message := []\<rparr> = MalformedChallenge\<lparr>message := []\<rparr>"
proof -
  have "decodePaymentRequired test_platform (make_response 402 None) = Inl (Thrown MissingChallenge)"
    by (simp add: decodePaymentRequired_def make_response_def MissingChallenge_def)
  moreover have "decodePaymentRequired test_platform (make_response 402 (Some ''!!!invalid!!!'')) =
       Inl (Thrown MalformedChallenge)"
    using atob_invalid by (simp add: decodePaymentRequired_def make_response_def MalformedChallenge_def)
  ultimately show ?thesis
    by (simp add: MissingChallenge_def MalformedChallenge_def PaymentRequiredError_def
        DenScopeError_def)
qed




section \<open>The version of the envelope\<close>

lemma buildPaymentHeader_ignores_parser:
  "buildPaymentHeader (P\<lparr>JSON_parse := f\<rparr>) acct req res = buildPaymentHeader P acct req res"
proof -
  have nonce: "randomNonce (P\<lparr>JSON_parse := f\<rparr>) = randomNonce P"
    by (simp add: randomNonce_def)
  have "signing_request (P\<lparr>JSON_parse := f\<rparr>) acct req c v = signing_request P acct req c v"
    for c v
    by (simp add: signing_request_def nonce)
  moreover have "wire_envelope (P\<lparr>JSON_parse := f\<rparr>) acct req res sig = wire_envelope P acct req res sig"
    for sig
    by (simp add: wire_envelope_def nonce)
  ultimately show ?thesis
    unfolding buildPaymentHeader_outcome by (simp split: sum.splits option.splits)
qed

lemma decodePaymentRequired_version:
  "decodePaymentRequired (P\<lparr>JSON_parse := (\<lambda>t. map_option (x402Version_update (\<lambda>_. k)) (JSON_parse P t))\<rparr>)
       response =
     (case decodePaymentRequired P response of
        Inl e \<Rightarrow> Inl e
      | Inr challenge \<Rightarrow> Inr (challenge\<lparr>x402Version := k\<rparr>))"
  by (simp add: decodePaymentRequired_def split: option.splits)

text \<open>
  C10. The envelope of a call that returns declares version 2. At the dispatcher, the
  header of the retry is the print of such an envelope, built from the first accepted
  requirement and the resource of the challenge; and replacing the version that the
  decoded challenge carries by any other number changes nothing in what the call sends
  and signs.
\<close>

theorem envelope_version_is_2:
  fixes P :: "'j platform"
  shows "(\<forall>h. snd (buildPaymentHeader P acct req res) = Inr h \<longrightarrow>
            (\<exists>env. h = btoa (JSON_stringify P env) \<and> env_x402Version env = 2))
       \<and> (\<forall>h. header_built P this path h \<longrightarrow>
            (\<exists>env response challenge.
                fetch P [] (first_request this path) = Inr response
              \<and> decodePaymentRequired P response = Inr challenge
              \<and> fetches (fst (request P this path)) =
                  [first_request this path,
                   retry_request this path (btoa (JSON_stringify P env))]
              \<and> env_x402Version env = 2
              \<and> env_accepted env = hd (accepts challenge)
              \<and> env_resource env = resource challenge))
       \<and> fst (request (P\<lparr>JSON_parse :=
                           (\<lambda>t. map_option (x402Version_update (\<lambda>_. k)) (JSON_parse P t))\<rparr>)
                  this path) =
           fst (request P this path)"
proof (intro conjI allI impI)
  fix h
  assume "snd (buildPaymentHeader P acct req res) = Inr h"
  from buildPaymentHeader_returns [OF this] obtain sig
    where "h = btoa (JSON_stringify P (wire_envelope P acct req res sig))" by blast
  moreover have "env_x402Version (wire_envelope P acct req res sig) = 2"
    by (simp add: wire_envelope_def)
  ultimately show "\<exists>env. h = btoa (JSON_stringify P env) \<and> env_x402Version env = 2" by blast
next
  fix h
  assume built: "header_built P this path h"
  then obtain response challenge
    where first: "fetch P [] (first_request this path) = Inr response"
      and dec: "decodePaymentRequired P response = Inr challenge"
      and h: "snd (buildPaymentHeader P (the (account (ds_config this)))
                 (hd (accepts challenge)) (resource challenge)) = Inr h"
    unfolding header_built_def by blast
  from buildPaymentHeader_returns [OF h] obtain sig
    where "h = btoa (JSON_stringify P (wire_envelope P (the (account (ds_config this)))
                 (hd (accepts challenge)) (resource challenge) sig))"
    by blast
  then obtain env
    where "h = btoa (JSON_stringify P env)" and "env_x402Version env = 2"
      and "env_accepted env = hd (accepts challenge)" and "env_resource env = resource challenge"
    by (simp add: wire_envelope_def)
  with first dec request_retry(1) [OF built]
  show "\<exists>env response challenge.
                fetch P [] (first_request this path) = Inr response
              \<and> decodePaymentRequired P response = Inr challenge
              \<and> fetches (fst (request P this path)) =
                  [first_request this path,
                   retry_request this path (btoa (JSON_stringify P env))]
              \<and> env_x402Version env = 2
              \<and> env_accepted env = hd (accepts challenge)
              \<and> env_resource env = resource challenge"
    by blast
next
  let ?P' = "P\<lparr>JSON_parse := (\<lambda>t. map_option (x402Version_update (\<lambda>_. k)) (JSON_parse P t))\<rparr>"
  show "fst (request ?P' this path) = fst (request P this path)"
    unfolding request_outcome [of ?P'] request_outcome [of P]
      decodePaymentRequired_version buildPaymentHeader_ignores_parser
    by (simp split: sum.splits)
qed

theorem envelope_version_is_2_witness:
  "\<exists>env. fetches (fst (request (paywall_platform (Some (btoa (print_body MOCK_PAYMENT_REQUIRED_BODY))))
                          x402_client ''/agent/42220/5/score'')) =
            [first_request x402_client ''/agent/42220/5/score'',
             retry_request x402_client ''/agent/42220/5/score''
               (btoa (JSON_stringify
                        (paywall_platform (Some (btoa (print_body MOCK_PAYMENT_REQUIRED_BODY)))) env))]
        \<and> env_x402Version env = 2"
proof -
  let ?P = "paywall_platform (Some (btoa (print_body MOCK_PAYMENT_REQUIRED_BODY)))"
  let ?path = "''/agent/42220/5/score''"
  from paywall_header_built [of ?path] obtain h where "header_built ?P x402_client ?path h"
    by blast
  with envelope_version_is_2 [of ?P mockAccount MOCK_REQUIREMENT MOCK_RESOURCE x402_client ?path 2]
  show ?thesis by blast
qed


end
